theory Spec2Isabelle
  imports Main
begin

section \<open>Repeat transformers\<close>

text \<open>
  The repeat transformers (\<^verbatim>\<open>rep_r_transformer\<close>, \<^verbatim>\<open>rep_l_transformer\<close> and their
  dynamic variants) wrap one sub-expression and remap flat indices into it. A sub-expression is seen through the two operations the transformers
  use: its \<^verbatim>\<open>size\<close> and its flat read \<^verbatim>\<open>sub[i]\<close>. It is modelled by the sequence of its
  elements in flat order. Reading past the end is undefined in the source (no bounds
  check at this layer); the model returns \<open>None\<close> there.

  Sizes, repeat counts and indices are \<^verbatim>\<open>std::size_t\<close>, taken 64 bits wide. They are
  natural numbers here, and every product the source computes in \<^verbatim>\<open>std::size_t\<close> is
  reduced modulo \<open>2 ^ 64\<close>, as unsigned arithmetic wraps around. Division and remainder
  of two values in range stay in range. The size of a sub-expression is the length of
  its sequence, below \<open>2 ^ 64\<close> for every sub-expression the source can hold.
\<close>

definition mul_size_t :: "nat \<Rightarrow> nat \<Rightarrow> nat" where
  "mul_size_t a b = (a * b) mod 2 ^ 64"

type_synonym 'v sub_type = "'v list"

definition size_sub :: "'v sub_type \<Rightarrow> nat" where
  "size_sub sub = length sub"

definition read_sub :: "'v sub_type \<Rightarrow> nat \<Rightarrow> 'v option" where
  "read_sub sub i = (if i < length sub then Some (sub ! i) else None)"

text \<open>
  Modelled from the spec: \<^verbatim>\<open>mul_all<D...>::value\<close> is declared outside the sources at
  hand; the spec calls it the repeat product, the product of all the repeat counts. It
  is a \<^verbatim>\<open>std::size_t\<close> constant, so the product wraps around.
\<close>

fun mul_all :: "nat list \<Rightarrow> nat" where
  "mul_all [] = 1"
| "mul_all (d # ds) = mul_size_t d (mul_all ds)"

text \<open>
  The static transformers carry their repeat counts \<^verbatim>\<open>D...\<close> as template arguments;
  the record keeps them in the field \<open>dims\<close>.
\<close>

record 'v rep_r_transformer =
  r_sub :: "'v sub_type"
  r_dims :: "nat list"

record 'v rep_l_transformer =
  l_sub :: "'v sub_type"
  l_dims :: "nat list"

text \<open>
  \<^verbatim>\<open>rep_r_transformer::operator[]\<close>: \<^verbatim>\<open>sub[i / mul_all<D...>::value]\<close>.
  A division by zero is undefined in the source and \<open>None\<close> here.
\<close>

definition rep_r_read :: "'v rep_r_transformer \<Rightarrow> nat \<Rightarrow> 'v option" where
  "rep_r_read t i =
     (if mul_all (r_dims t) = 0 then None
      else read_sub (r_sub t) (i div mul_all (r_dims t)))"

text \<open>
  \<^verbatim>\<open>rep_l_transformer::operator[]\<close>: \<^verbatim>\<open>sub[i % size(sub)]\<close>.
\<close>

definition rep_l_read :: "'v rep_l_transformer \<Rightarrow> nat \<Rightarrow> 'v option" where
  "rep_l_read t i =
     (if size_sub (l_sub t) = 0 then None
      else read_sub (l_sub t) (i mod size_sub (l_sub t)))"

text \<open>
  \<^verbatim>\<open>etl_traits<rep_r_transformer>::size\<close> and \<^verbatim>\<open>etl_traits<rep_l_transformer>::size\<close>:
  \<^verbatim>\<open>mul_all<D...>::value * size(v.sub)\<close>, a product of two \<^verbatim>\<open>std::size_t\<close>.
\<close>

definition rep_r_size :: "'v rep_r_transformer \<Rightarrow> nat" where
  "rep_r_size t = mul_size_t (mul_all (r_dims t)) (size_sub (r_sub t))"

definition rep_l_size :: "'v rep_l_transformer \<Rightarrow> nat" where
  "rep_l_size t = mul_size_t (mul_all (l_dims t)) (size_sub (l_sub t))"

text \<open>
  The dynamic transformers store the repeat counts in \<^verbatim>\<open>reps\<close> and cache their product
  in \<^verbatim>\<open>m\<close>, computed by the constructor with
  \<^verbatim>\<open>std::accumulate(reps.begin(), reps.end(), 1UL, a * b)\<close>, a left fold whose
  products are taken in \<^verbatim>\<open>std::size_t\<close>.
\<close>

record 'v dyn_rep_r_transformer =
  dr_sub :: "'v sub_type"
  dr_reps :: "nat list"
  dr_m :: nat

record 'v dyn_rep_l_transformer =
  dl_sub :: "'v sub_type"
  dl_reps :: "nat list"
  dl_m :: nat

definition dyn_rep_r_transformer :: "'v sub_type \<Rightarrow> nat list \<Rightarrow> 'v dyn_rep_r_transformer" where
  "dyn_rep_r_transformer expr reps_a =
     \<lparr>dr_sub = expr, dr_reps = reps_a, dr_m = foldl (\<lambda>a b. mul_size_t a b) 1 reps_a\<rparr>"

definition dyn_rep_l_transformer :: "'v sub_type \<Rightarrow> nat list \<Rightarrow> 'v dyn_rep_l_transformer" where
  "dyn_rep_l_transformer expr reps_a =
     \<lparr>dl_sub = expr, dl_reps = reps_a, dl_m = foldl (\<lambda>a b. mul_size_t a b) 1 reps_a\<rparr>"

text \<open>\<^verbatim>\<open>dyn_rep_r_transformer::operator[]\<close>: \<^verbatim>\<open>sub[i / m]\<close>.\<close>

definition dyn_rep_r_read :: "'v dyn_rep_r_transformer \<Rightarrow> nat \<Rightarrow> 'v option" where
  "dyn_rep_r_read t i =
     (if dr_m t = 0 then None else read_sub (dr_sub t) (i div dr_m t))"

text \<open>\<^verbatim>\<open>dyn_rep_l_transformer::operator[]\<close>: \<^verbatim>\<open>sub[i % size(sub)]\<close>.\<close>

definition dyn_rep_l_read :: "'v dyn_rep_l_transformer \<Rightarrow> nat \<Rightarrow> 'v option" where
  "dyn_rep_l_read t i =
     (if size_sub (dl_sub t) = 0 then None
      else read_sub (dl_sub t) (i mod size_sub (dl_sub t)))"

text \<open>
  \<^verbatim>\<open>etl_traits<dyn_rep_*_transformer>::size\<close>: \<^verbatim>\<open>v.m * size(v.sub)\<close>, a product of two
  \<^verbatim>\<open>std::size_t\<close>.
\<close>

definition dyn_rep_r_size :: "'v dyn_rep_r_transformer \<Rightarrow> nat" where
  "dyn_rep_r_size t = mul_size_t (dr_m t) (size_sub (dr_sub t))"

definition dyn_rep_l_size :: "'v dyn_rep_l_transformer \<Rightarrow> nat" where
  "dyn_rep_l_size t = mul_size_t (dl_m t) (size_sub (dl_sub t))"

text \<open>
  Modelled from the spec: flattening a transformer reads every flat index of
  \<open>[0, size)\<close> in order (the assignment loop itself is outside the sources at hand).
\<close>

definition flatten_rep_l :: "'v rep_l_transformer \<Rightarrow> 'v option list" where
  "flatten_rep_l t = map (rep_l_read t) [0 ..< rep_l_size t]"

definition flatten_rep_r :: "'v rep_r_transformer \<Rightarrow> 'v option list" where
  "flatten_rep_r t = map (rep_r_read t) [0 ..< rep_r_size t]"

section \<open>Temporary expressions\<close>

text \<open>
  A temporary expression of \<^verbatim>\<open>temporary_expr.hpp\<close> writes the result of its operator
  into a result object and is read through it. Result objects live in a store, a list of
  objects addressed by position, so that copies of an expression can share one result.
  The slot \<^verbatim>\<open>_c\<close> has the type \<^verbatim>\<open>data_type\<close>: a \<^verbatim>\<open>std::shared_ptr<result_type>\<close> when
  the expression is not forced (\<^verbatim>\<open>Forced = void\<close>), initially null, and the forced
  destination itself otherwise, here the address of the caller's object.
\<close>

type_synonym 'r store = "'r list"

datatype data_type = Shared "nat option" | Direct nat

text \<open>\<^verbatim>\<open>is_not_forced = std::is_same<Forced, void>::value\<close>.\<close>

fun is_not_forced :: "data_type \<Rightarrow> bool" where
  "is_not_forced (Shared p) = True"
| "is_not_forced (Direct p) = False"

text \<open>
  Modelled from the spec: \<^verbatim>\<open>cpp_assert\<close> is a macro declared outside the sources at hand;
  by the spec a failed assertion aborts the program in a debug build. The abort is the
  error value \<open>AssertionFailed\<close> with the message of the assertion. Dereferencing a null
  \<^verbatim>\<open>shared_ptr\<close> and using an address that names no object are undefined in the source;
  they are the two other errors.
\<close>

datatype error = AssertionFailed string | NullDereference | InvalidReference

text \<open>
  The operator \<^verbatim>\<open>Op\<close> is a template parameter. \<^verbatim>\<open>Op::apply(a, c)\<close> overwrites the
  object \<open>c\<close>: \<open>apply\<close> gives its new contents from the store as it is, the operand and
  the old contents. \<^verbatim>\<open>Op::allocate(a)\<close> returns a new result object.
\<close>

record ('a, 'r) unary_op =
  apply1 :: "'r store \<Rightarrow> 'a \<Rightarrow> 'r \<Rightarrow> 'r"
  allocate1 :: "'r store \<Rightarrow> 'a \<Rightarrow> 'r"

record ('a, 'b, 'r) binary_op =
  apply2 :: "'r store \<Rightarrow> 'a \<Rightarrow> 'b \<Rightarrow> 'r \<Rightarrow> 'r"
  allocate2 :: "'r store \<Rightarrow> 'a \<Rightarrow> 'b \<Rightarrow> 'r"

text \<open>
  Modelled from the spec: \<^verbatim>\<open>get_result_op\<close> is \<^verbatim>\<open>dereference_op\<close> for an unforced
  expression and \<^verbatim>\<open>forward_op\<close> for a forced one, both declared outside the sources at
  hand; the first dereferences the shared pointer, the second hands the destination on.
  The result is the address of the result object.
\<close>

definition get_result_op :: "'r store \<Rightarrow> data_type \<Rightarrow> error + nat" where
  "get_result_op h c =
     (case c of
        Shared None \<Rightarrow> Inl NullDereference
      | Shared (Some p) \<Rightarrow> (if p < length h then Inr p else Inl InvalidReference)
      | Direct p \<Rightarrow> (if p < length h then Inr p else Inl InvalidReference))"

text \<open>
  Modelled from the spec: \<^verbatim>\<open>optional_move<is_not_forced>\<close> is declared outside the sources
  at hand; it moves the shared pointer of an unforced expression (the data migrates and
  the moved-from pointer is left null) and hands a forced destination on as it is.
  The function returns what is left in the moved-from slot.
\<close>

fun optional_move :: "data_type \<Rightarrow> data_type" where
  "optional_move (Shared p) = Shared None"
| "optional_move (Direct p) = Direct p"

subsection \<open>The unary temporary expression\<close>

record 'a temporary_unary_expr =
  un_a :: 'a
  un_c :: data_type
  un_allocated :: bool
  un_evaluated :: bool

text \<open>
  \<^verbatim>\<open>explicit temporary_unary_expr(AExpr a)\<close>: the slot is default-initialised, a null
  pointer, and both flags keep their initialiser \<^verbatim>\<open>false\<close>. It is the constructor of
  an unforced expression; a forced one is built with its destination, by the next
  constructor.
\<close>

definition temporary_unary_expr :: "'a \<Rightarrow> 'a temporary_unary_expr" where
  "temporary_unary_expr a =
     \<lparr>un_a = a, un_c = Shared None, un_allocated = False, un_evaluated = False\<rparr>"

text \<open>
  \<^verbatim>\<open>temporary_unary_expr(AExpr a, Forced c)\<close>: \<^verbatim>\<open>_a(a), _c(c), allocated(true)\<close>.
\<close>

definition temporary_unary_expr_forced :: "'a \<Rightarrow> nat \<Rightarrow> 'a temporary_unary_expr" where
  "temporary_unary_expr_forced a c =
     \<lparr>un_a = a, un_c = Direct c, un_allocated = True, un_evaluated = False\<rparr>"

text \<open>The copy constructor copies the four members.\<close>

definition un_copy :: "'a temporary_unary_expr \<Rightarrow> 'a temporary_unary_expr" where
  "un_copy e =
     \<lparr>un_a = un_a e, un_c = un_c e, un_allocated = un_allocated e,
      un_evaluated = un_evaluated e\<rparr>"

text \<open>
  The move constructor; the pair is the new instance and the moved-from instance, whose
  \<^verbatim>\<open>evaluated\<close> is reset by the constructor's body.
\<close>

definition un_move :: "'a temporary_unary_expr \<Rightarrow> 'a temporary_unary_expr \<times> 'a temporary_unary_expr" where
  "un_move e =
     (\<lparr>un_a = un_a e, un_c = un_c e, un_allocated = un_allocated e,
       un_evaluated = un_evaluated e\<rparr>,
      e\<lparr>un_c := optional_move (un_c e), un_evaluated := False\<rparr>)"

text \<open>\<^verbatim>\<open>temporary_unary_expr::evaluate\<close>.\<close>

definition un_evaluate ::
  "('a, 'r) unary_op \<Rightarrow> 'r store \<Rightarrow> 'a temporary_unary_expr
    \<Rightarrow> error + ('r store \<times> 'a temporary_unary_expr)" where
  "un_evaluate op h e =
     (if \<not> un_evaluated e then
        (if \<not> un_allocated e then Inl (AssertionFailed ''The result has not been allocated'')
         else
           (case get_result_op h (un_c e) of
              Inl err \<Rightarrow> Inl err
            | Inr p \<Rightarrow> Inr (h[p := apply1 op h (un_a e) (h ! p)], e\<lparr>un_evaluated := True\<rparr>)))
      else Inr (h, e))"

text \<open>\<^verbatim>\<open>temporary_unary_expr::result\<close>; the value returned is the contents of the result.\<close>

definition un_result :: "'r store \<Rightarrow> 'a temporary_unary_expr \<Rightarrow> error + 'r" where
  "un_result h e =
     (if \<not> un_evaluated e then Inl (AssertionFailed ''The result has not been evaluated'')
      else if \<not> un_allocated e then Inl (AssertionFailed ''The result has not been allocated'')
      else
        (case get_result_op h (un_c e) of
           Inl err \<Rightarrow> Inl err
         | Inr p \<Rightarrow> Inr (h ! p)))"

text \<open>
  \<^verbatim>\<open>temporary_unary_expr::direct_evaluate\<close>, with the destination \<open>r\<close> the address of
  an object of the store. The first overload, \<^verbatim>\<open>cpp_disable_if(std::is_same<F, void>::value)\<close>,
  is the one of a forced expression and runs \<^verbatim>\<open>evaluate(); r = result();\<close>, the
  assignment copying the contents. The second, \<^verbatim>\<open>cpp_enable_if(std::is_same<F, void>::value)\<close>,
  is the one of an unforced expression and runs \<^verbatim>\<open>Op::apply(_a, result)\<close>.
\<close>

definition un_direct_evaluate ::
  "('a, 'r) unary_op \<Rightarrow> 'r store \<Rightarrow> 'a temporary_unary_expr \<Rightarrow> nat
    \<Rightarrow> error + ('r store \<times> 'a temporary_unary_expr)" where
  "un_direct_evaluate op h e r =
     (if \<not> is_not_forced (un_c e) then
        (case un_evaluate op h e of
           Inl err \<Rightarrow> Inl err
         | Inr (h', e') \<Rightarrow>
             (case un_result h' e' of
                Inl err \<Rightarrow> Inl err
              | Inr v \<Rightarrow>
                  (if r < length h' then Inr (h'[r := v], e') else Inl InvalidReference)))
      else
        (if r < length h then Inr (h[r := apply1 op h (un_a e) (h ! r)], e)
         else Inl InvalidReference))"

text \<open>
  \<^verbatim>\<open>temporary_unary_expr::allocate_temporary\<close>: the forced overload only sets the flag;
  the unforced overload allocates when the pointer is null.
\<close>

definition un_allocate_temporary ::
  "('a, 'r) unary_op \<Rightarrow> 'r store \<Rightarrow> 'a temporary_unary_expr
    \<Rightarrow> 'r store \<times> 'a temporary_unary_expr" where
  "un_allocate_temporary op h e =
     (case un_c e of
        Direct p \<Rightarrow> (h, e\<lparr>un_allocated := True\<rparr>)
      | Shared None \<Rightarrow>
          (h @ [allocate1 op h (un_a e)],
           e\<lparr>un_c := Shared (Some (length h)), un_allocated := True\<rparr>)
      | Shared (Some p) \<Rightarrow> (h, e\<lparr>un_allocated := True\<rparr>))"

text \<open>\<^verbatim>\<open>temporary_unary_expr::alias\<close>: \<^verbatim>\<open>_a.alias(rhs)\<close>, with the operand's own test.\<close>

definition un_alias :: "('a \<Rightarrow> 'e \<Rightarrow> bool) \<Rightarrow> 'a temporary_unary_expr \<Rightarrow> 'e \<Rightarrow> bool" where
  "un_alias alias_a e rhs = alias_a (un_a e) rhs"

text \<open>\<^verbatim>\<open>temporary_unary_expr::gpu_delegate_valid\<close>.\<close>

definition un_gpu_delegate_valid :: "'a temporary_unary_expr \<Rightarrow> bool" where
  "un_gpu_delegate_valid e = (un_evaluated e \<and> un_allocated e)"

subsection \<open>The binary temporary expression\<close>

record ('a, 'b) temporary_binary_expr =
  bin_a :: 'a
  bin_b :: 'b
  bin_c :: data_type
  bin_allocated :: bool
  bin_evaluated :: bool

definition temporary_binary_expr :: "'a \<Rightarrow> 'b \<Rightarrow> ('a, 'b) temporary_binary_expr" where
  "temporary_binary_expr a b =
     \<lparr>bin_a = a, bin_b = b, bin_c = Shared None, bin_allocated = False,
      bin_evaluated = False\<rparr>"

definition temporary_binary_expr_forced ::
  "'a \<Rightarrow> 'b \<Rightarrow> nat \<Rightarrow> ('a, 'b) temporary_binary_expr" where
  "temporary_binary_expr_forced a b c =
     \<lparr>bin_a = a, bin_b = b, bin_c = Direct c, bin_allocated = True,
      bin_evaluated = False\<rparr>"

definition bin_copy :: "('a, 'b) temporary_binary_expr \<Rightarrow> ('a, 'b) temporary_binary_expr" where
  "bin_copy e =
     \<lparr>bin_a = bin_a e, bin_b = bin_b e, bin_c = bin_c e, bin_allocated = bin_allocated e,
      bin_evaluated = bin_evaluated e\<rparr>"

definition bin_move ::
  "('a, 'b) temporary_binary_expr
    \<Rightarrow> ('a, 'b) temporary_binary_expr \<times> ('a, 'b) temporary_binary_expr" where
  "bin_move e =
     (\<lparr>bin_a = bin_a e, bin_b = bin_b e, bin_c = bin_c e, bin_allocated = bin_allocated e,
       bin_evaluated = bin_evaluated e\<rparr>,
      e\<lparr>bin_c := optional_move (bin_c e), bin_evaluated := False\<rparr>)"

text \<open>\<^verbatim>\<open>temporary_binary_expr::evaluate\<close>.\<close>

definition bin_evaluate ::
  "('a, 'b, 'r) binary_op \<Rightarrow> 'r store \<Rightarrow> ('a, 'b) temporary_binary_expr
    \<Rightarrow> error + ('r store \<times> ('a, 'b) temporary_binary_expr)" where
  "bin_evaluate op h e =
     (if \<not> bin_evaluated e then
        (if \<not> bin_allocated e then Inl (AssertionFailed ''The result has not been allocated'')
         else
           (case get_result_op h (bin_c e) of
              Inl err \<Rightarrow> Inl err
            | Inr p \<Rightarrow>
                Inr (h[p := apply2 op h (bin_a e) (bin_b e) (h ! p)],
                     e\<lparr>bin_evaluated := True\<rparr>)))
      else Inr (h, e))"

text \<open>\<^verbatim>\<open>temporary_binary_expr::result\<close>.\<close>

definition bin_result :: "'r store \<Rightarrow> ('a, 'b) temporary_binary_expr \<Rightarrow> error + 'r" where
  "bin_result h e =
     (if \<not> bin_evaluated e then Inl (AssertionFailed ''The result has not been evaluated'')
      else if \<not> bin_allocated e then Inl (AssertionFailed ''The result has not been allocated'')
      else
        (case get_result_op h (bin_c e) of
           Inl err \<Rightarrow> Inl err
         | Inr p \<Rightarrow> Inr (h ! p)))"

text \<open>\<^verbatim>\<open>temporary_binary_expr::direct_evaluate\<close>, the two overloads as for the unary one.\<close>

definition bin_direct_evaluate ::
  "('a, 'b, 'r) binary_op \<Rightarrow> 'r store \<Rightarrow> ('a, 'b) temporary_binary_expr \<Rightarrow> nat
    \<Rightarrow> error + ('r store \<times> ('a, 'b) temporary_binary_expr)" where
  "bin_direct_evaluate op h e r =
     (if \<not> is_not_forced (bin_c e) then
        (case bin_evaluate op h e of
           Inl err \<Rightarrow> Inl err
         | Inr (h', e') \<Rightarrow>
             (case bin_result h' e' of
                Inl err \<Rightarrow> Inl err
              | Inr v \<Rightarrow>
                  (if r < length h' then Inr (h'[r := v], e') else Inl InvalidReference)))
      else
        (if r < length h then Inr (h[r := apply2 op h (bin_a e) (bin_b e) (h ! r)], e)
         else Inl InvalidReference))"

text \<open>\<^verbatim>\<open>temporary_binary_expr::allocate_temporary\<close>.\<close>

definition bin_allocate_temporary ::
  "('a, 'b, 'r) binary_op \<Rightarrow> 'r store \<Rightarrow> ('a, 'b) temporary_binary_expr
    \<Rightarrow> 'r store \<times> ('a, 'b) temporary_binary_expr" where
  "bin_allocate_temporary op h e =
     (case bin_c e of
        Direct p \<Rightarrow> (h, e\<lparr>bin_allocated := True\<rparr>)
      | Shared None \<Rightarrow>
          (h @ [allocate2 op h (bin_a e) (bin_b e)],
           e\<lparr>bin_c := Shared (Some (length h)), bin_allocated := True\<rparr>)
      | Shared (Some p) \<Rightarrow> (h, e\<lparr>bin_allocated := True\<rparr>))"

text \<open>\<^verbatim>\<open>temporary_binary_expr::alias\<close>: \<^verbatim>\<open>_a.alias(rhs) || _b.alias(rhs)\<close>.\<close>

definition bin_alias ::
  "('a \<Rightarrow> 'e \<Rightarrow> bool) \<Rightarrow> ('b \<Rightarrow> 'e \<Rightarrow> bool) \<Rightarrow> ('a, 'b) temporary_binary_expr \<Rightarrow> 'e \<Rightarrow> bool" where
  "bin_alias alias_a alias_b e rhs = (alias_a (bin_a e) rhs \<or> alias_b (bin_b e) rhs)"

text \<open>\<^verbatim>\<open>temporary_binary_expr::gpu_delegate_valid\<close>.\<close>

definition bin_gpu_delegate_valid :: "('a, 'b) temporary_binary_expr \<Rightarrow> bool" where
  "bin_gpu_delegate_valid e = (bin_evaluated e \<and> bin_allocated e)"

subsection \<open>Lives of an instance\<close>

text \<open>
  The states an instance can reach are those a sequence of its public operations leads
  to, from one of its constructors. After a copy the sequence goes on with the copy;
  after a move it goes on either with the new instance or with the moved-from one. An
  operation that aborts ends the sequence with its error.
\<close>

datatype command =
  Copy | Move_to | Move_from | Allocate_temporary | Evaluate | Direct_evaluate nat

fun un_step ::
  "('a, 'r) unary_op \<Rightarrow> 'r store \<times> 'a temporary_unary_expr \<Rightarrow> command
    \<Rightarrow> error + ('r store \<times> 'a temporary_unary_expr)" where
  "un_step op (h, e) Copy = Inr (h, un_copy e)"
| "un_step op (h, e) Move_to = Inr (h, fst (un_move e))"
| "un_step op (h, e) Move_from = Inr (h, snd (un_move e))"
| "un_step op (h, e) Allocate_temporary = Inr (un_allocate_temporary op h e)"
| "un_step op (h, e) Evaluate = un_evaluate op h e"
| "un_step op (h, e) (Direct_evaluate r) = un_direct_evaluate op h e r"

fun un_run ::
  "('a, 'r) unary_op \<Rightarrow> 'r store \<times> 'a temporary_unary_expr \<Rightarrow> command list
    \<Rightarrow> error + ('r store \<times> 'a temporary_unary_expr)" where
  "un_run op s [] = Inr s"
| "un_run op s (c # cs) =
     (case un_step op s c of Inl err \<Rightarrow> Inl err | Inr s' \<Rightarrow> un_run op s' cs)"

fun bin_step ::
  "('a, 'b, 'r) binary_op \<Rightarrow> 'r store \<times> ('a, 'b) temporary_binary_expr \<Rightarrow> command
    \<Rightarrow> error + ('r store \<times> ('a, 'b) temporary_binary_expr)" where
  "bin_step op (h, e) Copy = Inr (h, bin_copy e)"
| "bin_step op (h, e) Move_to = Inr (h, fst (bin_move e))"
| "bin_step op (h, e) Move_from = Inr (h, snd (bin_move e))"
| "bin_step op (h, e) Allocate_temporary = Inr (bin_allocate_temporary op h e)"
| "bin_step op (h, e) Evaluate = bin_evaluate op h e"
| "bin_step op (h, e) (Direct_evaluate r) = bin_direct_evaluate op h e r"

fun bin_run ::
  "('a, 'b, 'r) binary_op \<Rightarrow> 'r store \<times> ('a, 'b) temporary_binary_expr \<Rightarrow> command list
    \<Rightarrow> error + ('r store \<times> ('a, 'b) temporary_binary_expr)" where
  "bin_run op s [] = Inr s"
| "bin_run op s (c # cs) =
     (case bin_step op s c of Inl err \<Rightarrow> Inl err | Inr s' \<Rightarrow> bin_run op s' cs)"

section \<open>Traits\<close>

text \<open>
  \<^verbatim>\<open>etl_traits<T>\<close> is computed per expression type. The specialisation for a composite
  type reads the traits of its operand types, so it is a function from their traits.
  The record holds the members every specialisation at hand defines; \<^verbatim>\<open>vectorizable<V>\<close>
  is a member template over the vector mode. Modelled from the spec: the enumeration
  \<^verbatim>\<open>order\<close> is declared outside the sources at hand; a storage order is row-major or
  column-major.
\<close>

datatype order = RowMajor | ColumnMajor

datatype vector_mode_t = NONE | SSE3 | AVX

record etl_traits =
  is_etl :: bool
  is_transformer :: bool
  is_view :: bool
  is_magic_view :: bool
  is_fast :: bool
  is_linear :: bool
  is_value :: bool
  is_generator :: bool
  needs_temporary_visitor :: bool
  needs_evaluator_visitor :: bool
  storage_order :: order
  vectorizable :: "vector_mode_t \<Rightarrow> bool"

text \<open>\<^verbatim>\<open>etl_traits<temporary_unary_expr<T, A, Op, Forced>>\<close>, from the traits of \<^verbatim>\<open>A\<close>.\<close>

definition temporary_unary_expr_traits :: "etl_traits \<Rightarrow> etl_traits" where
  "temporary_unary_expr_traits a_t =
     \<lparr>is_etl = True,
      is_transformer = False,
      is_view = False,
      is_magic_view = False,
      is_fast = is_fast a_t,
      is_linear = True,
      is_value = False,
      is_generator = False,
      needs_temporary_visitor = True,
      needs_evaluator_visitor = True,
      storage_order = storage_order a_t,
      vectorizable = (\<lambda>V. True)\<rparr>"

text \<open>
  \<^verbatim>\<open>etl_traits<temporary_binary_expr<T, A, B, Op, Forced>>\<close>, from the traits of \<^verbatim>\<open>A\<close>
  and \<^verbatim>\<open>B\<close>.
\<close>

definition temporary_binary_expr_traits :: "etl_traits \<Rightarrow> etl_traits \<Rightarrow> etl_traits" where
  "temporary_binary_expr_traits a_t b_t =
     \<lparr>is_etl = True,
      is_transformer = False,
      is_view = False,
      is_magic_view = False,
      is_fast = (is_fast a_t \<and> is_fast b_t),
      is_linear = True,
      is_value = False,
      is_generator = False,
      needs_temporary_visitor = True,
      needs_evaluator_visitor = True,
      storage_order = (if is_generator a_t then storage_order b_t else storage_order a_t),
      vectorizable = (\<lambda>V. True)\<rparr>"

text \<open>
  \<^verbatim>\<open>etl_traits<rep_r_transformer<T, D...>>\<close> and \<^verbatim>\<open>etl_traits<rep_l_transformer<T, D...>>\<close>,
  from the traits of the sub-expression type.
\<close>

definition rep_r_transformer_traits :: "etl_traits \<Rightarrow> etl_traits" where
  "rep_r_transformer_traits sub_expr_t =
     \<lparr>is_etl = True,
      is_transformer = True,
      is_view = False,
      is_magic_view = False,
      is_fast = is_fast sub_expr_t,
      is_linear = False,
      is_value = False,
      is_generator = False,
      needs_temporary_visitor = needs_temporary_visitor sub_expr_t,
      needs_evaluator_visitor = needs_evaluator_visitor sub_expr_t,
      storage_order = storage_order sub_expr_t,
      vectorizable = (\<lambda>V. False)\<rparr>"

definition rep_l_transformer_traits :: "etl_traits \<Rightarrow> etl_traits" where
  "rep_l_transformer_traits sub_expr_t =
     \<lparr>is_etl = True,
      is_transformer = True,
      is_view = False,
      is_magic_view = False,
      is_fast = is_fast sub_expr_t,
      is_linear = False,
      is_value = False,
      is_generator = False,
      needs_temporary_visitor = needs_temporary_visitor sub_expr_t,
      needs_evaluator_visitor = needs_evaluator_visitor sub_expr_t,
      storage_order = storage_order sub_expr_t,
      vectorizable = (\<lambda>V. False)\<rparr>"

text \<open>
  \<^verbatim>\<open>etl_traits<dyn_rep_r_transformer<T, D>>\<close> and \<^verbatim>\<open>etl_traits<dyn_rep_l_transformer<T, D>>\<close>.
\<close>

definition dyn_rep_r_transformer_traits :: "etl_traits \<Rightarrow> etl_traits" where
  "dyn_rep_r_transformer_traits sub_expr_t =
     \<lparr>is_etl = True,
      is_transformer = True,
      is_view = False,
      is_magic_view = False,
      is_fast = False,
      is_linear = False,
      is_value = False,
      is_generator = False,
      needs_temporary_visitor = needs_temporary_visitor sub_expr_t,
      needs_evaluator_visitor = needs_evaluator_visitor sub_expr_t,
      storage_order = storage_order sub_expr_t,
      vectorizable = (\<lambda>V. False)\<rparr>"

definition dyn_rep_l_transformer_traits :: "etl_traits \<Rightarrow> etl_traits" where
  "dyn_rep_l_transformer_traits sub_expr_t =
     \<lparr>is_etl = True,
      is_transformer = True,
      is_view = False,
      is_magic_view = False,
      is_fast = False,
      is_linear = False,
      is_value = False,
      is_generator = False,
      needs_temporary_visitor = needs_temporary_visitor sub_expr_t,
      needs_evaluator_visitor = needs_evaluator_visitor sub_expr_t,
      storage_order = storage_order sub_expr_t,
      vectorizable = (\<lambda>V. False)\<rparr>"

text \<open>
  A composite expression type is a tree of these nodes over leaf types, whose traits are
  given. \<open>traits_of\<close> resolves the traits of the root as the nested specialisations do,
  and \<open>nodes\<close> lists the types taking part in the composite, the root first.
\<close>

datatype expr_type =
  Leaf etl_traits
| Temporary_unary expr_type
| Temporary_binary expr_type expr_type
| Rep_r expr_type
| Rep_l expr_type
| Dyn_rep_r expr_type
| Dyn_rep_l expr_type

fun traits_of :: "expr_type \<Rightarrow> etl_traits" where
  "traits_of (Leaf t) = t"
| "traits_of (Temporary_unary a) = temporary_unary_expr_traits (traits_of a)"
| "traits_of (Temporary_binary a b) = temporary_binary_expr_traits (traits_of a) (traits_of b)"
| "traits_of (Rep_r s) = rep_r_transformer_traits (traits_of s)"
| "traits_of (Rep_l s) = rep_l_transformer_traits (traits_of s)"
| "traits_of (Dyn_rep_r s) = dyn_rep_r_transformer_traits (traits_of s)"
| "traits_of (Dyn_rep_l s) = dyn_rep_l_transformer_traits (traits_of s)"

fun nodes :: "expr_type \<Rightarrow> expr_type list" where
  "nodes (Leaf t) = [Leaf t]"
| "nodes (Temporary_unary a) = Temporary_unary a # nodes a"
| "nodes (Temporary_binary a b) = Temporary_binary a b # nodes a @ nodes b"
| "nodes (Rep_r s) = Rep_r s # nodes s"
| "nodes (Rep_l s) = Rep_l s # nodes s"
| "nodes (Dyn_rep_r s) = Dyn_rep_r s # nodes s"
| "nodes (Dyn_rep_l s) = Dyn_rep_l s # nodes s"

section \<open>Inputs for the concrete evaluations\<close>

text \<open>
  Two operators over integer sequences, operands captured by value: an element-wise
  negation and an element-wise sum, each allocating a zero-filled result of the
  operand's length.
\<close>

definition negate_op :: "(int list, int list) unary_op" where
  "negate_op = \<lparr>apply1 = (\<lambda>h a c. map uminus a), allocate1 = (\<lambda>h a. replicate (length a) 0)\<rparr>"

definition add_op :: "(int list, int list, int list) binary_op" where
  "add_op =
     \<lparr>apply2 = (\<lambda>h a b c. map (\<lambda>(x, y). x + y) (zip a b)),
      allocate2 = (\<lambda>h a b. replicate (length a) 0)\<rparr>"

text \<open>
  The traits of two leaf types: a container with a fully dynamic shape, and a generator,
  each with the storage order given.
\<close>

definition container_traits :: "order \<Rightarrow> etl_traits" where
  "container_traits ord =
     \<lparr>is_etl = True, is_transformer = False, is_view = False, is_magic_view = False,
      is_fast = False, is_linear = True, is_value = True, is_generator = False,
      needs_temporary_visitor = False, needs_evaluator_visitor = False,
      storage_order = ord, vectorizable = (\<lambda>V. True)\<rparr>"

definition generator_traits :: "order \<Rightarrow> etl_traits" where
  "generator_traits ord =
     \<lparr>is_etl = True, is_transformer = False, is_view = False, is_magic_view = False,
      is_fast = True, is_linear = True, is_value = False, is_generator = True,
      needs_temporary_visitor = False, needs_evaluator_visitor = False,
      storage_order = ord, vectorizable = (\<lambda>V. True)\<rparr>"

section \<open>Properties of the repeat transformers\<close>

lemma div_less_of_less_mult:
  fixes i m n :: nat
  assumes "i < m * n"
  shows "i div m < n"
proof -
  from assms have "0 < m" by (cases m) simp_all
  with assms show ?thesis by (simp add: less_mult_imp_div_less mult.commute)
qed

lemma mod_less_of_less_mult:
  fixes i m n :: nat
  assumes "i < m * n"
  shows "i mod n < n"
proof -
  from assms have "0 < n" by (cases n) simp_all
  then show ?thesis by simp
qed

text \<open>A wrapped product is at most the product, and is the product when that fits.\<close>

lemma less_mul_size_t:
  assumes "i < mul_size_t a b"
  shows "i < a * b"
proof -
  have "mul_size_t a b \<le> a * b" by (simp add: mul_size_t_def)
  with assms show ?thesis by (rule less_le_trans)
qed

lemma mul_size_t_less: "mul_size_t a b < 2 ^ 64"
  by (simp add: mul_size_t_def)

lemma mul_all_prod_list: "mul_all ds = prod_list ds mod 2 ^ 64"
  by (induction ds) (simp_all add: mul_size_t_def mod_mult_right_eq)

lemma mul_all_no_wrap:
  assumes "prod_list ds < 2 ^ 64"
  shows "mul_all ds = prod_list ds"
  using assms by (simp add: mul_all_prod_list)

lemma foldl_mul_size_t:
  assumes "k < 2 ^ 64"
  shows "foldl (\<lambda>a b. mul_size_t a b) k ds = (k * prod_list ds) mod 2 ^ 64"
  using assms
proof (induction ds arbitrary: k)
  case Nil
  then show ?case by simp
next
  case (Cons d ds)
  have "foldl (\<lambda>a b. mul_size_t a b) (mul_size_t k d) ds
      = (mul_size_t k d * prod_list ds) mod 2 ^ 64"
    by (rule Cons.IH) (rule mul_size_t_less)
  also have "\<dots> = (k * d * prod_list ds) mod 2 ^ 64"
    by (simp add: mul_size_t_def mod_mult_left_eq)
  finally show ?case by (simp add: mult.assoc)
qed

lemma dyn_rep_m: "dr_m (dyn_rep_r_transformer xs reps) = mul_all reps"
  and dyn_rep_l_m: "dl_m (dyn_rep_l_transformer xs reps) = mul_all reps"
  by (simp_all add: dyn_rep_r_transformer_def dyn_rep_l_transformer_def foldl_mul_size_t
      mul_all_prod_list)

lemma wrapped_size_no_wrap:
  assumes "prod_list ds * n < 2 ^ 64"
  shows "mul_size_t (mul_all ds) n = prod_list ds * n"
proof -
  have "mul_size_t (mul_all ds) n = (prod_list ds * n) mod 2 ^ 64"
    by (simp add: mul_size_t_def mul_all_prod_list mod_mult_left_eq)
  with assms show ?thesis by simp
qed

lemma product_fits:
  fixes m n i :: nat
  assumes "m * n < 2 ^ 64" and "i < m * n"
  shows "m < 2 ^ 64"
proof -
  from assms(2) have "0 < n" by (cases n) simp_all
  then have "m \<le> m * n" by simp
  from this assms(1) show ?thesis by (rule le_less_trans)
qed

text \<open>
  Products that do not fit 64 bits wrap around: the repeat counts \<open>2 ^ 63\<close> and 2 give
  the cached product 0, and twice the count \<open>2 ^ 32 + 1\<close> gives \<open>2 ^ 33 + 1\<close>.
\<close>

lemma dyn_rep_m_wraps:
  "dr_m (dyn_rep_r_transformer xs [9223372036854775808, 2]) = 0
   \<and> dr_m (dyn_rep_r_transformer xs [4294967297, 4294967297]) = 8589934593
   \<and> mul_all [4294967297, 4294967297] = 8589934593"
  by (simp add: dyn_rep_r_transformer_def mul_size_t_def)

lemma rep_l_read_in_range:
  assumes "i < rep_l_size t"
  shows "rep_l_read t i = Some (l_sub t ! (i mod size_sub (l_sub t)))"
proof -
  from assms have lt: "i < mul_all (l_dims t) * length (l_sub t)"
    unfolding rep_l_size_def size_sub_def by (rule less_mul_size_t)
  then have "i mod length (l_sub t) < length (l_sub t)"
    by (rule mod_less_of_less_mult)
  moreover from this have "length (l_sub t) \<noteq> 0" by (cases "l_sub t") simp_all
  ultimately show ?thesis
    by (simp add: rep_l_read_def read_sub_def size_sub_def)
qed

lemma rep_r_read_in_range:
  assumes "i < rep_r_size t"
  shows "rep_r_read t i = Some (r_sub t ! (i div mul_all (r_dims t)))"
    and "i div mul_all (r_dims t) < size_sub (r_sub t)"
proof -
  from assms have lt: "i < mul_all (r_dims t) * length (r_sub t)"
    unfolding rep_r_size_def size_sub_def by (rule less_mul_size_t)
  then have d: "i div mul_all (r_dims t) < length (r_sub t)"
    by (rule div_less_of_less_mult)
  moreover from lt have "mul_all (r_dims t) \<noteq> 0"
    by (cases "mul_all (r_dims t)") simp_all
  ultimately show "rep_r_read t i = Some (r_sub t ! (i div mul_all (r_dims t)))"
    by (simp add: rep_r_read_def read_sub_def)
  from d show "i div mul_all (r_dims t) < size_sub (r_sub t)"
    by (simp add: size_sub_def)
qed

lemma dyn_rep_r_read_in_range:
  assumes "i < dyn_rep_r_size t"
  shows "dyn_rep_r_read t i = Some (dr_sub t ! (i div dr_m t))"
    and "i div dr_m t < size_sub (dr_sub t)"
proof -
  from assms have lt: "i < dr_m t * length (dr_sub t)"
    unfolding dyn_rep_r_size_def size_sub_def by (rule less_mul_size_t)
  then have d: "i div dr_m t < length (dr_sub t)"
    by (rule div_less_of_less_mult)
  moreover from lt have "dr_m t \<noteq> 0"
    by (cases "dr_m t") simp_all
  ultimately show "dyn_rep_r_read t i = Some (dr_sub t ! (i div dr_m t))"
    by (simp add: dyn_rep_r_read_def read_sub_def)
  from d show "i div dr_m t < size_sub (dr_sub t)"
    by (simp add: size_sub_def)
qed

lemma dyn_rep_l_read_in_range:
  assumes "i < dyn_rep_l_size t"
  shows "dyn_rep_l_read t i = Some (dl_sub t ! (i mod size_sub (dl_sub t)))"
    and "i mod size_sub (dl_sub t) < size_sub (dl_sub t)"
proof -
  from assms have lt: "i < dl_m t * length (dl_sub t)"
    unfolding dyn_rep_l_size_def size_sub_def by (rule less_mul_size_t)
  then have m: "i mod length (dl_sub t) < length (dl_sub t)"
    by (rule mod_less_of_less_mult)
  moreover from this have "length (dl_sub t) \<noteq> 0" by (cases "dl_sub t") simp_all
  ultimately show "dyn_rep_l_read t i = Some (dl_sub t ! (i mod size_sub (dl_sub t)))"
    by (simp add: dyn_rep_l_read_def read_sub_def size_sub_def)
  from m show "i mod size_sub (dl_sub t) < size_sub (dl_sub t)"
    by (simp add: size_sub_def)
qed

lemma rep_l_size_no_wrap:
  assumes "prod_list (l_dims t) * size_sub (l_sub t) < 2 ^ 64"
  shows "rep_l_size t = prod_list (l_dims t) * size_sub (l_sub t)"
  unfolding rep_l_size_def using assms by (rule wrapped_size_no_wrap)

lemma rep_r_size_no_wrap:
  assumes "prod_list (r_dims t) * size_sub (r_sub t) < 2 ^ 64"
  shows "rep_r_size t = prod_list (r_dims t) * size_sub (r_sub t)"
  unfolding rep_r_size_def using assms by (rule wrapped_size_no_wrap)

lemma length_flatten_rep_l: "length (flatten_rep_l t) = rep_l_size t"
  by (simp add: flatten_rep_l_def)

lemma nth_flatten_rep_l:
  assumes "k < rep_l_size t"
  shows "flatten_rep_l t ! k = Some (l_sub t ! (k mod size_sub (l_sub t)))"
  using assms by (simp add: flatten_rep_l_def rep_l_read_in_range)

text \<open>
  The scenario of the spec: the 2 by 2 matrix with the elements 1, 2, 3, 4, repeated
  twice to the right, has 8 elements, each element of the matrix twice in a row.
\<close>

lemma rep_r_flatten_scenario:
  "rep_r_size \<lparr>r_sub = [1, 2, 3, 4::int], r_dims = [2]\<rparr> = 8
   \<and> flatten_rep_r \<lparr>r_sub = [1, 2, 3, 4::int], r_dims = [2]\<rparr>
       = map Some [1, 1, 2, 2, 3, 3, 4, 4]"
proof -
  let ?R = "\<lparr>r_sub = [1, 2, 3, 4::int], r_dims = [2]\<rparr>"
  have s: "rep_r_size ?R = 8"
    by (simp add: rep_r_size_def size_sub_def mul_size_t_def)
  have u: "[0 ..< 8] = [0, 1, 2, 3, 4, 5, 6, 7::nat]" by code_simp
  have "flatten_rep_r ?R = map Some [1, 1, 2, 2, 3, 3, 4, 4]"
    by (simp add: flatten_rep_r_def s u rep_r_read_def read_sub_def mul_size_t_def)
  with s show ?thesis by (rule conjI)
qed

text \<open>
  C2. For a static repeat transformer over a sub-expression of size \<open>N\<close> whose repeat
  counts have the product \<open>M\<close>, with \<open>M * N\<close> below \<open>2 ^ 64\<close> so that the size fits a
  \<^verbatim>\<open>std::size_t\<close>, and a flat index \<open>i < M * N\<close>: the size of the transformer is
  \<open>M * N\<close>, the left-repeat transformer reads the sub-expression's element \<open>i mod N\<close>
  and the right-repeat transformer its element \<open>i div M\<close>, both reads being in range.
  A left-repeat with the repeat counts 2 and 3, with \<open>6 * N\<close> below \<open>2 ^ 64\<close>, flattens
  to a sequence of length \<open>6 * N\<close> whose element \<open>k\<close> is the sub-expression's element
  \<open>k mod N\<close>.
\<close>

theorem rep_flat_read:
  "(prod_list (l_dims ta) * size_sub (l_sub ta) < 2 ^ 64
      \<and> i < prod_list (l_dims ta) * size_sub (l_sub ta) \<longrightarrow>
      rep_l_size ta = prod_list (l_dims ta) * size_sub (l_sub ta)
      \<and> rep_l_read ta i = Some (l_sub ta ! (i mod size_sub (l_sub ta))))
   \<and> (prod_list (r_dims tb) * size_sub (r_sub tb) < 2 ^ 64
      \<and> j < prod_list (r_dims tb) * size_sub (r_sub tb) \<longrightarrow>
      rep_r_size tb = prod_list (r_dims tb) * size_sub (r_sub tb)
      \<and> mul_all (r_dims tb) = prod_list (r_dims tb)
      \<and> rep_r_read tb j = Some (r_sub tb ! (j div prod_list (r_dims tb))))
   \<and> (l_dims t = [2, 3] \<and> 6 * size_sub (l_sub t) < 2 ^ 64 \<longrightarrow>
      length (flatten_rep_l t) = 6 * size_sub (l_sub t)
      \<and> (k < 6 * size_sub (l_sub t) \<longrightarrow>
           flatten_rep_l t ! k = Some (l_sub t ! (k mod size_sub (l_sub t)))))"
proof (intro conjI impI)
  assume a: "prod_list (l_dims ta) * size_sub (l_sub ta) < 2 ^ 64
      \<and> i < prod_list (l_dims ta) * size_sub (l_sub ta)"
  then show s: "rep_l_size ta = prod_list (l_dims ta) * size_sub (l_sub ta)"
    by (simp add: rep_l_size_no_wrap)
  with a have "i < rep_l_size ta" by simp
  then show "rep_l_read ta i = Some (l_sub ta ! (i mod size_sub (l_sub ta)))"
    by (rule rep_l_read_in_range)
next
  assume a: "prod_list (r_dims tb) * size_sub (r_sub tb) < 2 ^ 64
      \<and> j < prod_list (r_dims tb) * size_sub (r_sub tb)"
  then show s: "rep_r_size tb = prod_list (r_dims tb) * size_sub (r_sub tb)"
    by (simp add: rep_r_size_no_wrap)
  from a have "prod_list (r_dims tb) < 2 ^ 64"
    by (blast intro: product_fits)
  then show m: "mul_all (r_dims tb) = prod_list (r_dims tb)"
    by (rule mul_all_no_wrap)
  from a s have "j < rep_r_size tb" by simp
  then have "rep_r_read tb j = Some (r_sub tb ! (j div mul_all (r_dims tb)))"
    by (rule rep_r_read_in_range)
  with m show "rep_r_read tb j = Some (r_sub tb ! (j div prod_list (r_dims tb)))"
    by simp
next
  assume d: "l_dims t = [2, 3] \<and> 6 * size_sub (l_sub t) < 2 ^ 64"
  then have "prod_list (l_dims t) * size_sub (l_sub t) < 2 ^ 64" by simp
  then have "rep_l_size t = prod_list (l_dims t) * size_sub (l_sub t)"
    by (rule rep_l_size_no_wrap)
  with d have s: "rep_l_size t = 6 * size_sub (l_sub t)" by simp
  then show "length (flatten_rep_l t) = 6 * size_sub (l_sub t)"
    by (simp add: length_flatten_rep_l)
  assume "k < 6 * size_sub (l_sub t)"
  with s have "k < rep_l_size t" by simp
  then show "flatten_rep_l t ! k = Some (l_sub t ! (k mod size_sub (l_sub t)))"
    by (rule nth_flatten_rep_l)
qed

theorem rep_flat_read_witness:
  "prod_list [2, 3] * size_sub [10, 20::int] < 2 ^ 64
   \<and> (5::nat) < prod_list [2, 3] * size_sub [10, 20::int]
   \<and> rep_l_size \<lparr>l_sub = [10, 20::int], l_dims = [2, 3]\<rparr> = 12
   \<and> rep_l_read \<lparr>l_sub = [10, 20::int], l_dims = [2, 3]\<rparr> 5 = Some 20
   \<and> prod_list [2] * size_sub [1, 2, 3, 4::int] < 2 ^ 64
   \<and> (7::nat) < prod_list [2] * size_sub [1, 2, 3, 4::int]
   \<and> rep_r_size \<lparr>r_sub = [1, 2, 3, 4::int], r_dims = [2]\<rparr> = 8
   \<and> rep_r_read \<lparr>r_sub = [1, 2, 3, 4::int], r_dims = [2]\<rparr> 7 = Some 4
   \<and> 6 * size_sub [10, 20::int] < 2 ^ 64
   \<and> length (flatten_rep_l \<lparr>l_sub = [10, 20::int], l_dims = [2, 3]\<rparr>) = 12
   \<and> (9::nat) < 6 * size_sub [10, 20::int]
   \<and> flatten_rep_l \<lparr>l_sub = [10, 20::int], l_dims = [2, 3]\<rparr> ! 9 = Some 20"
proof -
  let ?L = "\<lparr>l_sub = [10, 20::int], l_dims = [2, 3]\<rparr>"
  let ?R = "\<lparr>r_sub = [1, 2, 3, 4::int], r_dims = [2]\<rparr>"
  have n1: "size_sub [10, 20::int] = 2" by (simp add: size_sub_def)
  have n2: "size_sub [1, 2, 3, 4::int] = 4" by (simp add: size_sub_def)
  have h1: "prod_list (l_dims ?L) * size_sub (l_sub ?L) < 2 ^ 64
      \<and> 5 < prod_list (l_dims ?L) * size_sub (l_sub ?L)"
    by (simp add: n1)
  have h2: "prod_list (r_dims ?R) * size_sub (r_sub ?R) < 2 ^ 64
      \<and> 7 < prod_list (r_dims ?R) * size_sub (r_sub ?R)"
    by (simp add: n2)
  have h3: "l_dims ?L = [2, 3] \<and> 6 * size_sub (l_sub ?L) < 2 ^ 64"
    by (simp add: n1)
  have h4: "(9::nat) < 6 * size_sub (l_sub ?L)" by (simp add: n1)
  have v1: "l_sub ?L ! (5 mod size_sub (l_sub ?L)) = 20" by code_simp
  have v2: "r_sub ?R ! (7 div prod_list (r_dims ?R)) = 4" by code_simp
  have v4: "l_sub ?L ! (9 mod size_sub (l_sub ?L)) = 20" by code_simp
  from rep_flat_read [where ta = ?L and i = 5 and tb = ?R and j = 7 and t = ?L and k = 9]
    h1 h2 h3 h4
  have "rep_l_size ?L = prod_list (l_dims ?L) * size_sub (l_sub ?L)"
    and "rep_l_read ?L 5 = Some (l_sub ?L ! (5 mod size_sub (l_sub ?L)))"
    and "rep_r_size ?R = prod_list (r_dims ?R) * size_sub (r_sub ?R)"
    and "rep_r_read ?R 7 = Some (r_sub ?R ! (7 div prod_list (r_dims ?R)))"
    and "length (flatten_rep_l ?L) = 6 * size_sub (l_sub ?L)"
    and "flatten_rep_l ?L ! 9 = Some (l_sub ?L ! (9 mod size_sub (l_sub ?L)))"
    by blast+
  with v1 v2 v4 show ?thesis by (simp add: n1 n2)
qed

text \<open>
  C3, as stated: reading a right-repeat transformer at \<open>i\<close> would read the sub-expression
  at \<open>i mod subSize\<close>, and reading a left-repeat transformer at \<open>i\<close> would read it at
  \<open>i div repeatProduct\<close>. The source has the two the other way round. For the 2 by 2
  matrix with the elements 1, 2, 3, 4 repeated twice, the right-repeat transformer reads
  1 at the flat index 1, where the sub-expression's element \<open>1 mod 4\<close> is 2; the
  left-repeat transformer reads 2 there, where the sub-expression's element \<open>1 div 2\<close>
  is 1.
\<close>

theorem rep_index_swapped_counterexample:
  "(1::nat) < rep_r_size \<lparr>r_sub = [1, 2, 3, 4::int], r_dims = [2]\<rparr>
   \<and> rep_r_read \<lparr>r_sub = [1, 2, 3, 4::int], r_dims = [2]\<rparr> 1 = Some 1
   \<and> rep_r_read \<lparr>r_sub = [1, 2, 3, 4::int], r_dims = [2]\<rparr> 1
       \<noteq> read_sub [1, 2, 3, 4::int] (1 mod size_sub [1, 2, 3, 4::int])
   \<and> (1::nat) < rep_l_size \<lparr>l_sub = [1, 2, 3, 4::int], l_dims = [2]\<rparr>
   \<and> rep_l_read \<lparr>l_sub = [1, 2, 3, 4::int], l_dims = [2]\<rparr> 1 = Some 2
   \<and> rep_l_read \<lparr>l_sub = [1, 2, 3, 4::int], l_dims = [2]\<rparr> 1
       \<noteq> read_sub [1, 2, 3, 4::int] (1 div mul_all [2])"
  by (simp add: rep_r_size_def rep_l_size_def rep_r_read_def rep_l_read_def
      read_sub_def size_sub_def mul_size_t_def)

text \<open>
  C3, amended. For every static or dynamic repeat transformer and every flat index \<open>i\<close>
  below its size, the read at \<open>i\<close> is in range and returns the sub-expression's element
  \<open>i div repeatProduct\<close> for a right-repeat transformer and its element \<open>i mod subSize\<close>
  for a left-repeat transformer. The size and the repeat product are the values the
  source computes in \<^verbatim>\<open>std::size_t\<close>; the product cached by a dynamic transformer is
  the one a static transformer has for the same repeat counts, and it is the product of
  the repeat counts whenever that is below \<open>2 ^ 64\<close>.
\<close>

theorem rep_index_all_transformers:
  "(ia < rep_r_size ta \<longrightarrow>
      rep_r_read ta ia = Some (r_sub ta ! (ia div mul_all (r_dims ta)))
      \<and> ia div mul_all (r_dims ta) < size_sub (r_sub ta))
   \<and> (ib < rep_l_size tb \<longrightarrow>
      rep_l_read tb ib = Some (l_sub tb ! (ib mod size_sub (l_sub tb)))
      \<and> ib mod size_sub (l_sub tb) < size_sub (l_sub tb))
   \<and> (ic < dyn_rep_r_size (dyn_rep_r_transformer xsc repsc) \<longrightarrow>
      dyn_rep_r_read (dyn_rep_r_transformer xsc repsc) ic
        = Some (xsc ! (ic div mul_all repsc))
      \<and> ic div mul_all repsc < size_sub xsc)
   \<and> (ie < dyn_rep_l_size (dyn_rep_l_transformer xsd repsd) \<longrightarrow>
      dyn_rep_l_read (dyn_rep_l_transformer xsd repsd) ie
        = Some (xsd ! (ie mod size_sub xsd))
      \<and> ie mod size_sub xsd < size_sub xsd)
   \<and> dr_m (dyn_rep_r_transformer xsc repsc) = mul_all repsc
   \<and> dl_m (dyn_rep_l_transformer xsd repsd) = mul_all repsd
   \<and> (prod_list dse < 2 ^ 64 \<longrightarrow> mul_all dse = prod_list dse)"
proof (intro conjI impI)
  assume a: "ia < rep_r_size ta"
  then show "rep_r_read ta ia = Some (r_sub ta ! (ia div mul_all (r_dims ta)))"
    by (rule rep_r_read_in_range)
  from a show "ia div mul_all (r_dims ta) < size_sub (r_sub ta)"
    by (rule rep_r_read_in_range)
next
  assume a: "ib < rep_l_size tb"
  then show "rep_l_read tb ib = Some (l_sub tb ! (ib mod size_sub (l_sub tb)))"
    by (rule rep_l_read_in_range)
  from a have "ib < mul_all (l_dims tb) * size_sub (l_sub tb)"
    unfolding rep_l_size_def by (rule less_mul_size_t)
  then show "ib mod size_sub (l_sub tb) < size_sub (l_sub tb)"
    by (rule mod_less_of_less_mult)
next
  let ?t = "dyn_rep_r_transformer xsc repsc"
  assume a: "ic < dyn_rep_r_size ?t"
  have s: "dr_sub ?t = xsc" by (simp add: dyn_rep_r_transformer_def)
  from a have "dyn_rep_r_read ?t ic = Some (dr_sub ?t ! (ic div dr_m ?t))"
    by (rule dyn_rep_r_read_in_range)
  then show "dyn_rep_r_read ?t ic = Some (xsc ! (ic div mul_all repsc))"
    by (simp add: s dyn_rep_m)
  from a have "ic div dr_m ?t < size_sub (dr_sub ?t)"
    by (rule dyn_rep_r_read_in_range)
  then show "ic div mul_all repsc < size_sub xsc"
    by (simp add: s dyn_rep_m)
next
  let ?t = "dyn_rep_l_transformer xsd repsd"
  assume a: "ie < dyn_rep_l_size ?t"
  have s: "dl_sub ?t = xsd" by (simp add: dyn_rep_l_transformer_def)
  from a have "dyn_rep_l_read ?t ie = Some (dl_sub ?t ! (ie mod size_sub (dl_sub ?t)))"
    by (rule dyn_rep_l_read_in_range)
  then show "dyn_rep_l_read ?t ie = Some (xsd ! (ie mod size_sub xsd))"
    by (simp add: s)
  from a have "ie mod size_sub (dl_sub ?t) < size_sub (dl_sub ?t)"
    by (rule dyn_rep_l_read_in_range)
  then show "ie mod size_sub xsd < size_sub xsd"
    by (simp add: s)
next
  show "dr_m (dyn_rep_r_transformer xsc repsc) = mul_all repsc" by (rule dyn_rep_m)
  show "dl_m (dyn_rep_l_transformer xsd repsd) = mul_all repsd" by (rule dyn_rep_l_m)
next
  assume "prod_list dse < 2 ^ 64"
  then show "mul_all dse = prod_list dse" by (rule mul_all_no_wrap)
qed

theorem rep_index_all_transformers_witness:
  "(3::nat) < rep_r_size \<lparr>r_sub = [1, 2, 3, 4::int], r_dims = [2]\<rparr>
   \<and> rep_r_read \<lparr>r_sub = [1, 2, 3, 4::int], r_dims = [2]\<rparr> 3 = Some 2
   \<and> (5::nat) < rep_l_size \<lparr>l_sub = [1, 2, 3, 4::int], l_dims = [2]\<rparr>
   \<and> rep_l_read \<lparr>l_sub = [1, 2, 3, 4::int], l_dims = [2]\<rparr> 5 = Some 2
   \<and> (8589934593::nat)
       < dyn_rep_r_size (dyn_rep_r_transformer [1, 2::int] [4294967297, 4294967297])
   \<and> dyn_rep_r_read (dyn_rep_r_transformer [1, 2::int] [4294967297, 4294967297])
        8589934593 = Some 2
   \<and> (7::nat) < dyn_rep_l_size (dyn_rep_l_transformer [1, 2, 3, 4::int] [2])
   \<and> dyn_rep_l_read (dyn_rep_l_transformer [1, 2, 3, 4::int] [2]) 7 = Some 4
   \<and> prod_list [2, 3::nat] < 2 ^ 64
   \<and> mul_all [2, 3] = 6"
proof -
  let ?R = "\<lparr>r_sub = [1, 2, 3, 4::int], r_dims = [2]\<rparr>"
  let ?L = "\<lparr>l_sub = [1, 2, 3, 4::int], l_dims = [2]\<rparr>"
  let ?xs = "[1, 2, 3, 4::int]"
  let ?ys = "[1, 2::int]"
  let ?big = "[4294967297, 4294967297::nat]"
  have h1: "(3::nat) < rep_r_size ?R"
    by (simp add: rep_r_size_def size_sub_def mul_size_t_def)
  have h2: "(5::nat) < rep_l_size ?L"
    by (simp add: rep_l_size_def size_sub_def mul_size_t_def)
  have h3: "(8589934593::nat) < dyn_rep_r_size (dyn_rep_r_transformer ?ys ?big)"
    by (simp add: dyn_rep_r_size_def dyn_rep_r_transformer_def size_sub_def mul_size_t_def)
  have h4: "(7::nat) < dyn_rep_l_size (dyn_rep_l_transformer ?xs [2])"
    by (simp add: dyn_rep_l_size_def dyn_rep_l_transformer_def size_sub_def mul_size_t_def)
  have h5: "prod_list [2, 3::nat] < 2 ^ 64" by simp
  have v1: "r_sub ?R ! (3 div mul_all (r_dims ?R)) = 2" by (simp add: mul_size_t_def)
  have v2: "l_sub ?L ! (5 mod size_sub (l_sub ?L)) = 2" by (simp add: size_sub_def)
  have v3: "?ys ! (8589934593 div mul_all ?big) = 2" by (simp add: mul_size_t_def)
  have v4: "?xs ! (7 mod size_sub ?xs) = 4" by (simp add: size_sub_def)
  from rep_index_all_transformers [where ia = 3 and ta = ?R and ib = 5 and tb = ?L
      and ic = 8589934593 and xsc = ?ys and repsc = ?big
      and ie = 7 and xsd = ?xs and repsd = "[2]" and dse = "[2, 3]"] h1 h2 h3 h4 h5
  have "rep_r_read ?R 3 = Some (r_sub ?R ! (3 div mul_all (r_dims ?R)))"
    and "rep_l_read ?L 5 = Some (l_sub ?L ! (5 mod size_sub (l_sub ?L)))"
    and "dyn_rep_r_read (dyn_rep_r_transformer ?ys ?big) 8589934593
          = Some (?ys ! (8589934593 div mul_all ?big))"
    and "dyn_rep_l_read (dyn_rep_l_transformer ?xs [2]) 7 = Some (?xs ! (7 mod size_sub ?xs))"
    and "mul_all [2, 3] = prod_list [2, 3]"
    by blast+
  with v1 v2 v3 v4 h1 h2 h3 h4 h5 show ?thesis by simp
qed
section \<open>Properties of the temporary expressions\<close>

lemma get_result_op_update [simp]: "get_result_op (h[q := v]) c = get_result_op h c"
  by (simp add: get_result_op_def split: data_type.splits option.splits)

text \<open>
  After \<open>allocate_temporary\<close> the instance is allocated and its slot names a result
  object, provided the slot named one before or was null; a second call changes nothing.
\<close>

lemma un_allocate_temporary_slot:
  assumes "un_allocate_temporary op h e = (h', e')"
    and "\<And>p. un_c e = Shared (Some p) \<or> un_c e = Direct p \<Longrightarrow> p < length h"
  shows "un_allocated e'" and "\<exists>p. get_result_op h' (un_c e') = Inr p"
  using assms
  by (auto simp: un_allocate_temporary_def get_result_op_def
      split: data_type.splits option.splits)

lemma bin_allocate_temporary_slot:
  assumes "bin_allocate_temporary op h e = (h', e')"
    and "\<And>p. bin_c e = Shared (Some p) \<or> bin_c e = Direct p \<Longrightarrow> p < length h"
  shows "bin_allocated e'" and "\<exists>p. get_result_op h' (bin_c e') = Inr p"
  using assms
  by (auto simp: bin_allocate_temporary_def get_result_op_def
      split: data_type.splits option.splits)

lemma un_allocate_temporary_twice:
  assumes "un_allocate_temporary op h e = (h', e')"
  shows "un_allocate_temporary op h' e' = (h', e')"
  using assms
  by (auto simp: un_allocate_temporary_def split: data_type.splits option.splits)

lemma bin_allocate_temporary_twice:
  assumes "bin_allocate_temporary op h e = (h', e')"
  shows "bin_allocate_temporary op h' e' = (h', e')"
  using assms
  by (auto simp: bin_allocate_temporary_def split: data_type.splits option.splits)

lemma un_evaluate_twice:
  assumes "un_evaluate op h e = Inr (h', e')"
  shows "un_evaluate op h' e' = Inr (h', e')" and "un_evaluated e'"
  using assms
  by (auto simp: un_evaluate_def split: if_splits sum.splits)

lemma bin_evaluate_twice:
  assumes "bin_evaluate op h e = Inr (h', e')"
  shows "bin_evaluate op h' e' = Inr (h', e')" and "bin_evaluated e'"
  using assms
  by (auto simp: bin_evaluate_def split: if_splits sum.splits)

lemma un_evaluate_allocated:
  assumes "un_allocated e" and "get_result_op h (un_c e) = Inr p"
  shows "un_evaluate op h e =
    Inr (if un_evaluated e then h else h[p := apply1 op h (un_a e) (h ! p)],
         e\<lparr>un_evaluated := True\<rparr>)"
  using assms by (simp add: un_evaluate_def)

lemma bin_evaluate_allocated:
  assumes "bin_allocated e" and "get_result_op h (bin_c e) = Inr p"
  shows "bin_evaluate op h e =
    Inr (if bin_evaluated e then h else h[p := apply2 op h (bin_a e) (bin_b e) (h ! p)],
         e\<lparr>bin_evaluated := True\<rparr>)"
  using assms by (simp add: bin_evaluate_def)

lemma un_direct_evaluate_unforced:
  assumes "is_not_forced (un_c e)" and "r < length h"
  shows "un_direct_evaluate op h e r = Inr (h[r := apply1 op h (un_a e) (h ! r)], e)"
  using assms by (simp add: un_direct_evaluate_def)

lemma bin_direct_evaluate_unforced:
  assumes "is_not_forced (bin_c e)" and "r < length h"
  shows "bin_direct_evaluate op h e r
    = Inr (h[r := apply2 op h (bin_a e) (bin_b e) (h ! r)], e)"
  using assms by (simp add: bin_direct_evaluate_def)

lemma un_direct_evaluate_forced:
  assumes "\<not> is_not_forced (un_c e)" and "un_allocated e"
    and "get_result_op h (un_c e) = Inr p" and "r < length h"
  shows "un_direct_evaluate op h e r =
    (let h' = (if un_evaluated e then h else h[p := apply1 op h (un_a e) (h ! p)])
     in Inr (h'[r := h' ! p], e\<lparr>un_evaluated := True\<rparr>))"
proof -
  let ?h = "if un_evaluated e then h else h[p := apply1 op h (un_a e) (h ! p)]"
  let ?e = "e\<lparr>un_evaluated := True\<rparr>"
  from assms have ev: "un_evaluate op h e = Inr (?h, ?e)"
    by (simp add: un_evaluate_allocated)
  from assms have "get_result_op ?h (un_c ?e) = Inr p" by simp
  with assms have res: "un_result ?h ?e = Inr (?h ! p)"
    by (simp add: un_result_def)
  from assms ev res show ?thesis
    unfolding un_direct_evaluate_def Let_def by simp
qed

lemma bin_direct_evaluate_forced:
  assumes "\<not> is_not_forced (bin_c e)" and "bin_allocated e"
    and "get_result_op h (bin_c e) = Inr p" and "r < length h"
  shows "bin_direct_evaluate op h e r =
    (let h' = (if bin_evaluated e then h
               else h[p := apply2 op h (bin_a e) (bin_b e) (h ! p)])
     in Inr (h'[r := h' ! p], e\<lparr>bin_evaluated := True\<rparr>))"
proof -
  let ?h = "if bin_evaluated e then h else h[p := apply2 op h (bin_a e) (bin_b e) (h ! p)]"
  let ?e = "e\<lparr>bin_evaluated := True\<rparr>"
  from assms have ev: "bin_evaluate op h e = Inr (?h, ?e)"
    by (simp add: bin_evaluate_allocated)
  from assms have "get_result_op ?h (bin_c ?e) = Inr p" by simp
  with assms have res: "bin_result ?h ?e = Inr (?h ! p)"
    by (simp add: bin_result_def)
  from assms ev res show ?thesis
    unfolding bin_direct_evaluate_def Let_def by simp
qed

lemma un_step_flags:
  assumes "un_evaluated e \<longrightarrow> un_allocated e"
    and "un_step op (h, e) c = Inr (h', e')"
  shows "un_evaluated e' \<longrightarrow> un_allocated e'"
  using assms
  by (cases c)
    (auto simp: un_copy_def un_move_def un_allocate_temporary_def un_evaluate_def
      un_direct_evaluate_def un_result_def
      split: if_splits sum.splits data_type.splits option.splits prod.splits)

lemma un_run_flags:
  assumes "un_evaluated e \<longrightarrow> un_allocated e"
    and "un_run op (h, e) cs = Inr (h', e')"
  shows "un_evaluated e' \<longrightarrow> un_allocated e'"
  using assms
proof (induction cs arbitrary: h e)
  case Nil
  then show ?case by simp
next
  case (Cons c cs)
  from Cons.prems(2) obtain h1 e1 where
    step: "un_step op (h, e) c = Inr (h1, e1)" and run: "un_run op (h1, e1) cs = Inr (h', e')"
    by (auto split: sum.splits)
  from Cons.prems(1) step have "un_evaluated e1 \<longrightarrow> un_allocated e1"
    by (rule un_step_flags)
  then show ?case using run by (rule Cons.IH)
qed

lemma bin_step_flags:
  assumes "bin_evaluated e \<longrightarrow> bin_allocated e"
    and "bin_step op (h, e) c = Inr (h', e')"
  shows "bin_evaluated e' \<longrightarrow> bin_allocated e'"
  using assms
  by (cases c)
    (auto simp: bin_copy_def bin_move_def bin_allocate_temporary_def bin_evaluate_def
      bin_direct_evaluate_def bin_result_def
      split: if_splits sum.splits data_type.splits option.splits prod.splits)

lemma bin_run_flags:
  assumes "bin_evaluated e \<longrightarrow> bin_allocated e"
    and "bin_run op (h, e) cs = Inr (h', e')"
  shows "bin_evaluated e' \<longrightarrow> bin_allocated e'"
  using assms
proof (induction cs arbitrary: h e)
  case Nil
  then show ?case by simp
next
  case (Cons c cs)
  from Cons.prems(2) obtain h1 e1 where
    step: "bin_step op (h, e) c = Inr (h1, e1)" and run: "bin_run op (h1, e1) cs = Inr (h', e')"
    by (auto split: sum.splits)
  from Cons.prems(1) step have "bin_evaluated e1 \<longrightarrow> bin_allocated e1"
    by (rule bin_step_flags)
  then show ?case using run by (rule Cons.IH)
qed

text \<open>
  C1, as stated: a forced expression would apply the operator straight into the given
  destination and leave its slot alone, and an unforced one would evaluate into its slot
  and copy. The source has the overloads the other way round. With the slot at address
  0 and the destination at address 1, \<open>direct_evaluate\<close> on a forced expression
  overwrites the slot, sets \<open>evaluated\<close> and copies the slot to the destination; on an
  unforced, allocated expression it writes the destination only and the slot and
  \<open>evaluated\<close> stay as they were.
\<close>

theorem direct_evaluate_forced_goes_through_slot_counterexample:
  "\<not> is_not_forced (un_c (temporary_unary_expr_forced [1, 2::int] 0))
   \<and> un_direct_evaluate negate_op [[0, 0], [9, 9]] (temporary_unary_expr_forced [1, 2] 0) 1
     = Inr ([[-1, -2], [-1, -2]],
            \<lparr>un_a = [1, 2], un_c = Direct 0, un_allocated = True, un_evaluated = True\<rparr>)
   \<and> un_direct_evaluate negate_op [[0, 0], [9, 9]] (temporary_unary_expr_forced [1, 2] 0) 1
     \<noteq> Inr ([[0, 0], [-1, -2]], temporary_unary_expr_forced [1, 2] 0)
   \<and> is_not_forced (un_c \<lparr>un_a = [1, 2::int], un_c = Shared (Some 0), un_allocated = True,
                            un_evaluated = False\<rparr>)
   \<and> un_direct_evaluate negate_op [[0, 0], [9, 9]]
        \<lparr>un_a = [1, 2], un_c = Shared (Some 0), un_allocated = True, un_evaluated = False\<rparr> 1
     = Inr ([[0, 0], [-1, -2]],
            \<lparr>un_a = [1, 2], un_c = Shared (Some 0), un_allocated = True,
             un_evaluated = False\<rparr>)
   \<and> un_direct_evaluate negate_op [[0, 0], [9, 9]]
        \<lparr>un_a = [1, 2], un_c = Shared (Some 0), un_allocated = True, un_evaluated = False\<rparr> 1
     \<noteq> Inr ([[-1, -2], [-1, -2]],
            \<lparr>un_a = [1, 2], un_c = Shared (Some 0), un_allocated = True,
             un_evaluated = True\<rparr>)
   \<and> bin_direct_evaluate add_op [[0, 0], [9, 9]] (temporary_binary_expr_forced [1, 2] [3, 4] 0) 1
     = Inr ([[4, 6], [4, 6]],
            \<lparr>bin_a = [1, 2], bin_b = [3, 4], bin_c = Direct 0, bin_allocated = True,
             bin_evaluated = True\<rparr>)
   \<and> bin_direct_evaluate add_op [[0, 0], [9, 9]]
        \<lparr>bin_a = [1, 2], bin_b = [3, 4], bin_c = Shared (Some 0), bin_allocated = True,
         bin_evaluated = False\<rparr> 1
     = Inr ([[0, 0], [4, 6]],
            \<lparr>bin_a = [1, 2], bin_b = [3, 4], bin_c = Shared (Some 0), bin_allocated = True,
             bin_evaluated = False\<rparr>)"
  by (simp add: un_direct_evaluate_def un_evaluate_def un_result_def
      bin_direct_evaluate_def bin_evaluate_def bin_result_def get_result_op_def
      temporary_unary_expr_forced_def temporary_binary_expr_forced_def
      negate_op_def add_op_def)

text \<open>
  C1, amended. For every unary or binary temporary expression and every destination of
  the store: on an unforced expression \<open>direct_evaluate\<close> applies the operator straight
  into the destination and changes neither the instance nor any other object; on a
  forced, allocated expression whose slot names an object it has the effect of
  \<open>evaluate()\<close> (one application into the slot unless already evaluated, \<open>evaluated\<close>
  set) followed by a copy of the slot's contents into the destination.
\<close>

theorem direct_evaluate_modes:
  "(is_not_forced (un_c ea) \<and> ra < length sa \<longrightarrow>
      un_direct_evaluate opa sa ea ra
        = Inr (sa[ra := apply1 opa sa (un_a ea) (sa ! ra)], ea))
   \<and> (\<not> is_not_forced (un_c eb) \<and> un_allocated eb
       \<and> get_result_op sb (un_c eb) = Inr pb \<and> rb < length sb \<longrightarrow>
      (let s' = (if un_evaluated eb then sb
                 else sb[pb := apply1 opb sb (un_a eb) (sb ! pb)])
       in un_evaluate opb sb eb = Inr (s', eb\<lparr>un_evaluated := True\<rparr>)
          \<and> un_direct_evaluate opb sb eb rb
              = Inr (s'[rb := s' ! pb], eb\<lparr>un_evaluated := True\<rparr>)))
   \<and> (is_not_forced (bin_c ec) \<and> rc < length sc \<longrightarrow>
      bin_direct_evaluate opc sc ec rc
        = Inr (sc[rc := apply2 opc sc (bin_a ec) (bin_b ec) (sc ! rc)], ec))
   \<and> (\<not> is_not_forced (bin_c ed) \<and> bin_allocated ed
       \<and> get_result_op sd (bin_c ed) = Inr pd \<and> rd < length sd \<longrightarrow>
      (let s' = (if bin_evaluated ed then sd
                 else sd[pd := apply2 opd sd (bin_a ed) (bin_b ed) (sd ! pd)])
       in bin_evaluate opd sd ed = Inr (s', ed\<lparr>bin_evaluated := True\<rparr>)
          \<and> bin_direct_evaluate opd sd ed rd
              = Inr (s'[rd := s' ! pd], ed\<lparr>bin_evaluated := True\<rparr>)))"
proof (intro conjI impI)
  assume "is_not_forced (un_c ea) \<and> ra < length sa"
  then show "un_direct_evaluate opa sa ea ra
      = Inr (sa[ra := apply1 opa sa (un_a ea) (sa ! ra)], ea)"
    by (simp add: un_direct_evaluate_unforced)
next
  assume a: "\<not> is_not_forced (un_c eb) \<and> un_allocated eb
       \<and> get_result_op sb (un_c eb) = Inr pb \<and> rb < length sb"
  then have "un_evaluate opb sb eb
      = Inr (if un_evaluated eb then sb else sb[pb := apply1 opb sb (un_a eb) (sb ! pb)],
             eb\<lparr>un_evaluated := True\<rparr>)"
    by (simp add: un_evaluate_allocated)
  moreover from a have "un_direct_evaluate opb sb eb rb =
    (let h' = (if un_evaluated eb then sb else sb[pb := apply1 opb sb (un_a eb) (sb ! pb)])
     in Inr (h'[rb := h' ! pb], eb\<lparr>un_evaluated := True\<rparr>))"
    by (simp add: un_direct_evaluate_forced)
  ultimately show "let s' = (if un_evaluated eb then sb
                 else sb[pb := apply1 opb sb (un_a eb) (sb ! pb)])
       in un_evaluate opb sb eb = Inr (s', eb\<lparr>un_evaluated := True\<rparr>)
          \<and> un_direct_evaluate opb sb eb rb
              = Inr (s'[rb := s' ! pb], eb\<lparr>un_evaluated := True\<rparr>)"
    unfolding Let_def by (intro conjI)
next
  assume "is_not_forced (bin_c ec) \<and> rc < length sc"
  then show "bin_direct_evaluate opc sc ec rc
      = Inr (sc[rc := apply2 opc sc (bin_a ec) (bin_b ec) (sc ! rc)], ec)"
    by (simp add: bin_direct_evaluate_unforced)
next
  assume a: "\<not> is_not_forced (bin_c ed) \<and> bin_allocated ed
       \<and> get_result_op sd (bin_c ed) = Inr pd \<and> rd < length sd"
  then have "bin_evaluate opd sd ed
      = Inr (if bin_evaluated ed then sd
             else sd[pd := apply2 opd sd (bin_a ed) (bin_b ed) (sd ! pd)],
             ed\<lparr>bin_evaluated := True\<rparr>)"
    by (simp add: bin_evaluate_allocated)
  moreover from a have "bin_direct_evaluate opd sd ed rd =
    (let h' = (if bin_evaluated ed then sd
               else sd[pd := apply2 opd sd (bin_a ed) (bin_b ed) (sd ! pd)])
     in Inr (h'[rd := h' ! pd], ed\<lparr>bin_evaluated := True\<rparr>))"
    by (simp add: bin_direct_evaluate_forced)
  ultimately show "let s' = (if bin_evaluated ed then sd
                 else sd[pd := apply2 opd sd (bin_a ed) (bin_b ed) (sd ! pd)])
       in bin_evaluate opd sd ed = Inr (s', ed\<lparr>bin_evaluated := True\<rparr>)
          \<and> bin_direct_evaluate opd sd ed rd
              = Inr (s'[rd := s' ! pd], ed\<lparr>bin_evaluated := True\<rparr>)"
    unfolding Let_def by (intro conjI)
qed

theorem direct_evaluate_modes_witness:
  "un_direct_evaluate negate_op [[0, 0], [9, 9]]
        \<lparr>un_a = [1, 2], un_c = Shared (Some 0), un_allocated = True, un_evaluated = False\<rparr> 1
     = Inr ([[0, 0], [-1, -2]],
            \<lparr>un_a = [1, 2], un_c = Shared (Some 0), un_allocated = True,
             un_evaluated = False\<rparr>)
   \<and> un_direct_evaluate negate_op [[0, 0], [9, 9]] (temporary_unary_expr_forced [1, 2] 0) 1
     = Inr ([[-1, -2], [-1, -2]],
            \<lparr>un_a = [1, 2], un_c = Direct 0, un_allocated = True, un_evaluated = True\<rparr>)
   \<and> bin_direct_evaluate add_op [[0, 0, 0]] (temporary_binary_expr [1, 2, 3] [4, 5, 6]) 0
     = Inr ([[5, 7, 9]], temporary_binary_expr [1, 2, 3] [4, 5, 6])
   \<and> bin_direct_evaluate add_op [[0, 0, 0], [9, 9, 9]]
        (temporary_binary_expr_forced [1, 2, 3] [4, 5, 6] 0) 1
     = Inr ([[5, 7, 9], [5, 7, 9]],
            \<lparr>bin_a = [1, 2, 3], bin_b = [4, 5, 6], bin_c = Direct 0, bin_allocated = True,
             bin_evaluated = True\<rparr>)"
proof -
  let ?ea = "\<lparr>un_a = [1, 2::int], un_c = Shared (Some 0), un_allocated = True,
              un_evaluated = False\<rparr>"
  let ?eb = "temporary_unary_expr_forced [1, 2::int] 0"
  let ?ec = "temporary_binary_expr [1, 2, 3::int] [4, 5, 6::int]"
  let ?ed = "temporary_binary_expr_forced [1, 2, 3::int] [4, 5, 6::int] 0"
  have ga: "is_not_forced (un_c ?ea) \<and> 1 < length [[0, 0], [9, 9::int]]" by simp
  have gb: "\<not> is_not_forced (un_c ?eb) \<and> un_allocated ?eb
      \<and> get_result_op [[0, 0], [9, 9::int]] (un_c ?eb) = Inr 0
      \<and> 1 < length [[0, 0], [9, 9::int]]"
    by (simp add: temporary_unary_expr_forced_def get_result_op_def)
  have gc: "is_not_forced (bin_c ?ec) \<and> 0 < length [[0, 0, 0::int]]"
    by (simp add: temporary_binary_expr_def)
  have gd: "\<not> is_not_forced (bin_c ?ed) \<and> bin_allocated ?ed
      \<and> get_result_op [[0, 0, 0], [9, 9, 9::int]] (bin_c ?ed) = Inr 0
      \<and> 1 < length [[0, 0, 0], [9, 9, 9::int]]"
    by (simp add: temporary_binary_expr_forced_def get_result_op_def)
  from direct_evaluate_modes [where ea = ?ea and ra = 1 and sa = "[[0, 0], [9, 9]]"
      and opa = negate_op and eb = ?eb and sb = "[[0, 0], [9, 9]]" and pb = 0 and rb = 1
      and opb = negate_op and ec = ?ec and rc = 0 and sc = "[[0, 0, 0]]" and opc = add_op
      and ed = ?ed and sd = "[[0, 0, 0], [9, 9, 9]]" and pd = 0 and rd = 1 and opd = add_op]
    ga gb gc gd
  show ?thesis
    by (simp add: Let_def negate_op_def add_op_def temporary_unary_expr_forced_def
        temporary_binary_expr_def temporary_binary_expr_forced_def)
qed

text \<open>
  C4. For every unary or binary temporary expression, \<open>result()\<close> on an instance whose
  evaluation or allocation has not completed fails by an assertion: with the message of
  the first assertion when \<open>evaluated\<close> is false, with that of the second when
  \<open>evaluated\<close> is true and \<open>allocated\<close> is false. When \<open>result()\<close> returns a value,
  both flags are true; when both are true and the slot names a result object, it returns
  the contents of that object.
\<close>

theorem result_contract:
  "(un_result sa ea = Inr va \<longrightarrow> un_evaluated ea \<and> un_allocated ea)
   \<and> (\<not> un_evaluated eb \<longrightarrow>
        un_result sb eb = Inl (AssertionFailed ''The result has not been evaluated''))
   \<and> (un_evaluated ec \<and> \<not> un_allocated ec \<longrightarrow>
        un_result sc ec = Inl (AssertionFailed ''The result has not been allocated''))
   \<and> (un_evaluated ed \<and> un_allocated ed \<and> get_result_op sd (un_c ed) = Inr pd \<longrightarrow>
        un_result sd ed = Inr (sd ! pd))
   \<and> (bin_result se ee = Inr ve \<longrightarrow> bin_evaluated ee \<and> bin_allocated ee)
   \<and> (\<not> bin_evaluated ef \<longrightarrow>
        bin_result sf ef = Inl (AssertionFailed ''The result has not been evaluated''))
   \<and> (bin_evaluated eg \<and> \<not> bin_allocated eg \<longrightarrow>
        bin_result sg eg = Inl (AssertionFailed ''The result has not been allocated''))
   \<and> (bin_evaluated eh \<and> bin_allocated eh \<and> get_result_op sh (bin_c eh) = Inr ph \<longrightarrow>
        bin_result sh eh = Inr (sh ! ph))"
  by (simp add: un_result_def bin_result_def)

theorem result_contract_witness:
  "un_result [[-1, -2]]
      \<lparr>un_a = [1, 2::int], un_c = Shared (Some 0), un_allocated = True, un_evaluated = True\<rparr>
     = Inr [-1, -2::int]
   \<and> un_result ([] :: int list store) (temporary_unary_expr [1, 2::int])
     = Inl (AssertionFailed ''The result has not been evaluated'')
   \<and> un_result ([] :: int list store)
      \<lparr>un_a = [1, 2::int], un_c = Shared None, un_allocated = False, un_evaluated = True\<rparr>
     = Inl (AssertionFailed ''The result has not been allocated'')
   \<and> bin_result [[4, 6]]
      \<lparr>bin_a = [1, 2::int], bin_b = [3, 4::int], bin_c = Direct 0, bin_allocated = True,
       bin_evaluated = True\<rparr>
     = Inr [4, 6::int]
   \<and> bin_result [[0, 0::int]] (temporary_binary_expr_forced [1, 2::int] [3, 4::int] 0)
     = Inl (AssertionFailed ''The result has not been evaluated'')
   \<and> bin_result ([] :: int list store)
      \<lparr>bin_a = [1, 2::int], bin_b = [3, 4::int], bin_c = Shared None, bin_allocated = False,
       bin_evaluated = True\<rparr>
     = Inl (AssertionFailed ''The result has not been allocated'')"
proof -
  let ?h = "[[-1, -2::int]]"
  let ?e = "\<lparr>un_a = [1, 2::int], un_c = Shared (Some 0), un_allocated = True,
             un_evaluated = True\<rparr>"
  let ?e3 = "\<lparr>un_a = [1, 2::int], un_c = Shared None, un_allocated = False,
              un_evaluated = True\<rparr>"
  let ?k = "[[4, 6::int]]"
  let ?f = "\<lparr>bin_a = [1, 2::int], bin_b = [3, 4::int], bin_c = Direct 0,
             bin_allocated = True, bin_evaluated = True\<rparr>"
  let ?f7 = "\<lparr>bin_a = [1, 2::int], bin_b = [3, 4::int], bin_c = Shared None,
              bin_allocated = False, bin_evaluated = True\<rparr>"
  have g1: "get_result_op ?h (un_c ?e) = Inr 0" by (simp add: get_result_op_def)
  have g2: "get_result_op ?k (bin_c ?f) = Inr 0" by (simp add: get_result_op_def)
  have n1: "\<not> un_evaluated (temporary_unary_expr [1, 2::int])"
    by (simp add: temporary_unary_expr_def)
  have n2: "\<not> bin_evaluated (temporary_binary_expr_forced [1, 2::int] [3, 4::int] 0)"
    by (simp add: temporary_binary_expr_forced_def)
  from result_contract [where sa = ?h and ea = ?e and va = "[-1, -2]"
      and sb = "[] :: int list store" and eb = "temporary_unary_expr [1, 2::int]"
      and sc = "[] :: int list store" and ec = ?e3
      and sd = ?h and ed = ?e and pd = 0
      and se = ?k and ee = ?f and ve = "[4, 6]"
      and sf = "[[0, 0::int]]" and ef = "temporary_binary_expr_forced [1, 2::int] [3, 4::int] 0"
      and sg = "[] :: int list store" and eg = ?f7
      and sh = ?k and eh = ?f and ph = 0] g1 g2 n1 n2
  show ?thesis by simp
qed

text \<open>
  C5. For every unary or binary temporary expression that has been allocated and whose
  slot names a result object, \<open>evaluate()\<close> returns, and a second \<open>evaluate()\<close> returns
  the very same store and instance: the second call is a no-op because \<open>evaluated\<close> is
  set. After both calls the result object holds the output of one application of the
  operator when the instance was not evaluated before, and the store is untouched when
  it was.
\<close>

theorem evaluate_idempotent:
  "(un_allocated e1 \<and> get_result_op h1 (un_c e1) = Inr p1 \<longrightarrow>
      (let h' = (if un_evaluated e1 then h1
                 else h1[p1 := apply1 op1 h1 (un_a e1) (h1 ! p1)]);
           e' = e1\<lparr>un_evaluated := True\<rparr>
       in un_evaluate op1 h1 e1 = Inr (h', e')
          \<and> un_evaluate op1 h' e' = Inr (h', e')
          \<and> un_result h' e' = Inr (h' ! p1)))
   \<and> (bin_allocated e2 \<and> get_result_op h2 (bin_c e2) = Inr p2 \<longrightarrow>
      (let h' = (if bin_evaluated e2 then h2
                 else h2[p2 := apply2 op2 h2 (bin_a e2) (bin_b e2) (h2 ! p2)]);
           e' = e2\<lparr>bin_evaluated := True\<rparr>
       in bin_evaluate op2 h2 e2 = Inr (h', e')
          \<and> bin_evaluate op2 h' e' = Inr (h', e')
          \<and> bin_result h' e' = Inr (h' ! p2)))"
proof (intro conjI impI)
  assume a: "un_allocated e1 \<and> get_result_op h1 (un_c e1) = Inr p1"
  let ?h = "if un_evaluated e1 then h1 else h1[p1 := apply1 op1 h1 (un_a e1) (h1 ! p1)]"
  let ?e = "e1\<lparr>un_evaluated := True\<rparr>"
  from a have first: "un_evaluate op1 h1 e1 = Inr (?h, ?e)"
    by (simp add: un_evaluate_allocated)
  then have second: "un_evaluate op1 ?h ?e = Inr (?h, ?e)"
    by (rule un_evaluate_twice)
  from a have "get_result_op ?h (un_c ?e) = Inr p1" by simp
  with a have res: "un_result ?h ?e = Inr (?h ! p1)"
    by (simp add: un_result_def)
  from first second res
  show "let h' = ?h; e' = ?e
        in un_evaluate op1 h1 e1 = Inr (h', e')
          \<and> un_evaluate op1 h' e' = Inr (h', e')
          \<and> un_result h' e' = Inr (h' ! p1)"
    unfolding Let_def by (intro conjI)
next
  assume a: "bin_allocated e2 \<and> get_result_op h2 (bin_c e2) = Inr p2"
  let ?h = "if bin_evaluated e2 then h2
            else h2[p2 := apply2 op2 h2 (bin_a e2) (bin_b e2) (h2 ! p2)]"
  let ?e = "e2\<lparr>bin_evaluated := True\<rparr>"
  from a have first: "bin_evaluate op2 h2 e2 = Inr (?h, ?e)"
    by (simp add: bin_evaluate_allocated)
  then have second: "bin_evaluate op2 ?h ?e = Inr (?h, ?e)"
    by (rule bin_evaluate_twice)
  from a have "get_result_op ?h (bin_c ?e) = Inr p2" by simp
  with a have res: "bin_result ?h ?e = Inr (?h ! p2)"
    by (simp add: bin_result_def)
  from first second res
  show "let h' = ?h; e' = ?e
        in bin_evaluate op2 h2 e2 = Inr (h', e')
          \<and> bin_evaluate op2 h' e' = Inr (h', e')
          \<and> bin_result h' e' = Inr (h' ! p2)"
    unfolding Let_def by (intro conjI)
qed

theorem evaluate_idempotent_witness:
  "un_allocate_temporary negate_op [] (temporary_unary_expr [1, 2])
     = ([[0, 0]], \<lparr>un_a = [1, 2], un_c = Shared (Some 0), un_allocated = True,
                   un_evaluated = False\<rparr>)
   \<and> un_evaluate negate_op [[0, 0]]
        \<lparr>un_a = [1, 2], un_c = Shared (Some 0), un_allocated = True, un_evaluated = False\<rparr>
     = Inr ([[-1, -2]], \<lparr>un_a = [1, 2], un_c = Shared (Some 0), un_allocated = True,
                         un_evaluated = True\<rparr>)
   \<and> un_evaluate negate_op [[-1, -2]]
        \<lparr>un_a = [1, 2], un_c = Shared (Some 0), un_allocated = True, un_evaluated = True\<rparr>
     = Inr ([[-1, -2]], \<lparr>un_a = [1, 2], un_c = Shared (Some 0), un_allocated = True,
                         un_evaluated = True\<rparr>)
   \<and> bin_evaluate add_op [[0, 0]] (temporary_binary_expr_forced [1, 2] [3, 4] 0)
     = Inr ([[4, 6]], \<lparr>bin_a = [1, 2], bin_b = [3, 4], bin_c = Direct 0,
                       bin_allocated = True, bin_evaluated = True\<rparr>)
   \<and> bin_evaluate add_op [[4, 6]]
        \<lparr>bin_a = [1, 2], bin_b = [3, 4], bin_c = Direct 0, bin_allocated = True,
         bin_evaluated = True\<rparr>
     = Inr ([[4, 6]], \<lparr>bin_a = [1, 2], bin_b = [3, 4], bin_c = Direct 0,
                       bin_allocated = True, bin_evaluated = True\<rparr>)"
proof -
  let ?e = "\<lparr>un_a = [1, 2::int], un_c = Shared (Some 0), un_allocated = True,
             un_evaluated = False\<rparr>"
  let ?f = "temporary_binary_expr_forced [1, 2::int] [3, 4::int] 0"
  have al: "un_allocate_temporary negate_op [] (temporary_unary_expr [1, 2]) = ([[0, 0]], ?e)"
    by (simp add: un_allocate_temporary_def temporary_unary_expr_def negate_op_def)
  have g1: "un_allocated ?e \<and> get_result_op [[0, 0::int]] (un_c ?e) = Inr 0"
    by (simp add: get_result_op_def)
  have g2: "bin_allocated ?f \<and> get_result_op [[0, 0::int]] (bin_c ?f) = Inr 0"
    by (simp add: get_result_op_def temporary_binary_expr_forced_def)
  from evaluate_idempotent [of ?e "[[0, 0]]" 0 negate_op ?f "[[0, 0]]" 0 add_op] g1 g2 al
  show ?thesis
    by (simp add: Let_def negate_op_def add_op_def temporary_binary_expr_forced_def)
qed

text \<open>
  C6. For every unary or binary temporary expression in any state, the move
  constructor leaves the moved-from instance with \<open>evaluated\<close> false and \<open>allocated\<close>
  unchanged; the new instance has the flags the source had before the move, and
  \<open>result()\<close> on it gives what \<open>result()\<close> gave on the source before the move. After
  an \<open>evaluate()\<close> that returned, the new instance is evaluated and the moved-from
  instance is not.
\<close>

theorem move_construction:
  "un_evaluated (snd (un_move ea)) = False
   \<and> un_allocated (snd (un_move ea)) = un_allocated ea
   \<and> un_evaluated (fst (un_move ea)) = un_evaluated ea
   \<and> un_allocated (fst (un_move ea)) = un_allocated ea
   \<and> un_result sa (fst (un_move ea)) = un_result sa ea
   \<and> bin_evaluated (snd (bin_move eb)) = False
   \<and> bin_allocated (snd (bin_move eb)) = bin_allocated eb
   \<and> bin_evaluated (fst (bin_move eb)) = bin_evaluated eb
   \<and> bin_allocated (fst (bin_move eb)) = bin_allocated eb
   \<and> bin_result sb (fst (bin_move eb)) = bin_result sb eb
   \<and> (un_evaluate opc sc ec = Inr (tc, fc) \<longrightarrow>
        un_evaluated (fst (un_move fc)) \<and> \<not> un_evaluated (snd (un_move fc))
        \<and> un_result tc (fst (un_move fc)) = un_result tc fc)
   \<and> (bin_evaluate opd sd ed = Inr (td, fd) \<longrightarrow>
        bin_evaluated (fst (bin_move fd)) \<and> \<not> bin_evaluated (snd (bin_move fd))
        \<and> bin_result td (fst (bin_move fd)) = bin_result td fd)"
  by (auto simp: un_move_def bin_move_def un_result_def bin_result_def
      dest: un_evaluate_twice(2) bin_evaluate_twice(2))

theorem move_construction_witness:
  "un_evaluate negate_op [[0, 0]] (temporary_unary_expr_forced [1, 2] 0)
     = Inr ([[-1, -2]], \<lparr>un_a = [1, 2], un_c = Direct 0, un_allocated = True,
                         un_evaluated = True\<rparr>)
   \<and> un_evaluated (fst (un_move \<lparr>un_a = [1, 2::int], un_c = Direct 0, un_allocated = True,
                                  un_evaluated = True\<rparr>))
   \<and> \<not> un_evaluated (snd (un_move \<lparr>un_a = [1, 2::int], un_c = Direct 0,
                                       un_allocated = True, un_evaluated = True\<rparr>))
   \<and> bin_evaluate add_op [[0, 0]]
        \<lparr>bin_a = [1, 2], bin_b = [3, 4], bin_c = Shared (Some 0), bin_allocated = True,
         bin_evaluated = False\<rparr>
     = Inr ([[4, 6]], \<lparr>bin_a = [1, 2], bin_b = [3, 4], bin_c = Shared (Some 0),
                       bin_allocated = True, bin_evaluated = True\<rparr>)
   \<and> bin_evaluated (fst (bin_move \<lparr>bin_a = [1, 2::int], bin_b = [3, 4::int],
        bin_c = Shared (Some 0), bin_allocated = True, bin_evaluated = True\<rparr>))
   \<and> \<not> bin_evaluated (snd (bin_move \<lparr>bin_a = [1, 2::int], bin_b = [3, 4::int],
        bin_c = Shared (Some 0), bin_allocated = True, bin_evaluated = True\<rparr>))"
proof -
  let ?e = "\<lparr>un_a = [1, 2::int], un_c = Direct 0, un_allocated = True,
             un_evaluated = True\<rparr>"
  let ?g = "\<lparr>bin_a = [1, 2::int], bin_b = [3, 4::int], bin_c = Shared (Some 0),
              bin_allocated = True, bin_evaluated = False\<rparr>"
  let ?f = "\<lparr>bin_a = [1, 2::int], bin_b = [3, 4::int], bin_c = Shared (Some 0),
             bin_allocated = True, bin_evaluated = True\<rparr>"
  have u: "un_evaluate negate_op [[0, 0]] (temporary_unary_expr_forced [1, 2] 0)
      = Inr ([[-1, -2]], ?e)"
    by (simp add: un_evaluate_def temporary_unary_expr_forced_def get_result_op_def
        negate_op_def)
  have b: "bin_evaluate add_op [[0, 0]] ?g = Inr ([[4, 6]], ?f)"
    by (simp add: bin_evaluate_def get_result_op_def add_op_def)
  from move_construction [where opc = negate_op and sc = "[[0, 0]]"
      and ec = "temporary_unary_expr_forced [1, 2] 0" and tc = "[[-1, -2]]"
      and fc = ?e and opd = add_op and sd = "[[0, 0]]" and ed = ?g
      and td = "[[4, 6]]" and fd = ?f and ea = ?e and sa = "[[-1, -2]]"
      and eb = ?f and sb = "[[4, 6]]"] u b
  have "un_evaluated (fst (un_move ?e)) \<and> \<not> un_evaluated (snd (un_move ?e))
    \<and> bin_evaluated (fst (bin_move ?f)) \<and> \<not> bin_evaluated (snd (bin_move ?f))"
    by blast
  with u b show ?thesis by blast
qed

text \<open>
  C7. For every binary temporary expression and every expression \<open>x\<close>, \<open>alias(x)\<close> is
  true exactly when the left operand's alias test or the right operand's alias test
  is true for \<open>x\<close>.
\<close>

theorem binary_alias:
  "bin_alias alias_a alias_b e x = (alias_a (bin_a e) x \<or> alias_b (bin_b e) x)"
  by (simp add: bin_alias_def)

text \<open>
  C10. For every unary or binary temporary expression, in every state reached from one
  of the two constructors by copies, moves (on either side of the move),
  \<open>allocate_temporary\<close>, \<open>evaluate\<close> and \<open>direct_evaluate\<close>, \<open>evaluated\<close> implies
  \<open>allocated\<close>; there \<open>gpu_delegate_valid()\<close> equals the \<open>evaluated\<close> flag.
\<close>

theorem evaluated_implies_allocated:
  "(un_run opa (sa, temporary_unary_expr aa) csa = Inr (ta, ea) \<longrightarrow>
      (un_evaluated ea \<longrightarrow> un_allocated ea) \<and> un_gpu_delegate_valid ea = un_evaluated ea)
   \<and> (un_run opb (sb, temporary_unary_expr_forced ab cb) csb = Inr (tb, eb) \<longrightarrow>
      (un_evaluated eb \<longrightarrow> un_allocated eb) \<and> un_gpu_delegate_valid eb = un_evaluated eb)
   \<and> (bin_run opc (sc, temporary_binary_expr ac bc) csc = Inr (tc, ec) \<longrightarrow>
      (bin_evaluated ec \<longrightarrow> bin_allocated ec) \<and> bin_gpu_delegate_valid ec = bin_evaluated ec)
   \<and> (bin_run opd (sd, temporary_binary_expr_forced ad bd cd) csd = Inr (td, ed) \<longrightarrow>
      (bin_evaluated ed \<longrightarrow> bin_allocated ed) \<and> bin_gpu_delegate_valid ed = bin_evaluated ed)"
proof (intro conjI impI)
  assume "un_run opa (sa, temporary_unary_expr aa) csa = Inr (ta, ea)"
  with un_run_flags [of "temporary_unary_expr aa" opa sa csa ta ea]
  have "un_evaluated ea \<longrightarrow> un_allocated ea"
    by (simp add: temporary_unary_expr_def)
  then show "un_allocated ea" if "un_evaluated ea" using that by simp
  then show "un_gpu_delegate_valid ea = un_evaluated ea"
    by (auto simp: un_gpu_delegate_valid_def)
next
  assume "un_run opb (sb, temporary_unary_expr_forced ab cb) csb = Inr (tb, eb)"
  with un_run_flags [of "temporary_unary_expr_forced ab cb" opb sb csb tb eb]
  have "un_evaluated eb \<longrightarrow> un_allocated eb"
    by (simp add: temporary_unary_expr_forced_def)
  then show "un_allocated eb" if "un_evaluated eb" using that by simp
  then show "un_gpu_delegate_valid eb = un_evaluated eb"
    by (auto simp: un_gpu_delegate_valid_def)
next
  assume "bin_run opc (sc, temporary_binary_expr ac bc) csc = Inr (tc, ec)"
  with bin_run_flags [of "temporary_binary_expr ac bc" opc sc csc tc ec]
  have "bin_evaluated ec \<longrightarrow> bin_allocated ec"
    by (simp add: temporary_binary_expr_def)
  then show "bin_allocated ec" if "bin_evaluated ec" using that by simp
  then show "bin_gpu_delegate_valid ec = bin_evaluated ec"
    by (auto simp: bin_gpu_delegate_valid_def)
next
  assume "bin_run opd (sd, temporary_binary_expr_forced ad bd cd) csd = Inr (td, ed)"
  with bin_run_flags [of "temporary_binary_expr_forced ad bd cd" opd sd csd td ed]
  have "bin_evaluated ed \<longrightarrow> bin_allocated ed"
    by (simp add: temporary_binary_expr_forced_def)
  then show "bin_allocated ed" if "bin_evaluated ed" using that by simp
  then show "bin_gpu_delegate_valid ed = bin_evaluated ed"
    by (auto simp: bin_gpu_delegate_valid_def)
qed

theorem evaluated_implies_allocated_witness:
  "un_run negate_op ([], temporary_unary_expr [1, 2]) [Allocate_temporary, Evaluate, Move_to]
     = Inr ([[-1, -2]], \<lparr>un_a = [1, 2], un_c = Shared (Some 0), un_allocated = True,
                         un_evaluated = True\<rparr>)
   \<and> un_gpu_delegate_valid \<lparr>un_a = [1, 2::int], un_c = Shared (Some 0), un_allocated = True,
                             un_evaluated = True\<rparr>
   \<and> un_run negate_op ([[0, 0]], temporary_unary_expr_forced [1, 2] 0) [Evaluate, Move_from]
     = Inr ([[-1, -2]], \<lparr>un_a = [1, 2], un_c = Direct 0, un_allocated = True,
                         un_evaluated = False\<rparr>)
   \<and> \<not> un_gpu_delegate_valid \<lparr>un_a = [1, 2::int], un_c = Direct 0, un_allocated = True,
                                 un_evaluated = False\<rparr>
   \<and> bin_run add_op ([], temporary_binary_expr [1, 2] [3, 4]) [Copy, Allocate_temporary, Evaluate]
     = Inr ([[4, 6]], \<lparr>bin_a = [1, 2], bin_b = [3, 4], bin_c = Shared (Some 0),
                       bin_allocated = True, bin_evaluated = True\<rparr>)
   \<and> bin_gpu_delegate_valid \<lparr>bin_a = [1, 2::int], bin_b = [3, 4::int],
        bin_c = Shared (Some 0), bin_allocated = True, bin_evaluated = True\<rparr>
   \<and> bin_run add_op ([[0, 0], [9, 9]], temporary_binary_expr_forced [1, 2] [3, 4] 0)
        [Direct_evaluate 1]
     = Inr ([[4, 6], [4, 6]], \<lparr>bin_a = [1, 2], bin_b = [3, 4], bin_c = Direct 0,
                               bin_allocated = True, bin_evaluated = True\<rparr>)
   \<and> bin_gpu_delegate_valid \<lparr>bin_a = [1, 2::int], bin_b = [3, 4::int],
        bin_c = Direct 0, bin_allocated = True, bin_evaluated = True\<rparr>"
proof -
  let ?ea = "\<lparr>un_a = [1, 2::int], un_c = Shared (Some 0), un_allocated = True,
              un_evaluated = True\<rparr>"
  let ?eb = "\<lparr>un_a = [1, 2::int], un_c = Direct 0, un_allocated = True,
              un_evaluated = False\<rparr>"
  let ?ec = "\<lparr>bin_a = [1, 2::int], bin_b = [3, 4::int], bin_c = Shared (Some 0),
              bin_allocated = True, bin_evaluated = True\<rparr>"
  let ?ed = "\<lparr>bin_a = [1, 2::int], bin_b = [3, 4::int], bin_c = Direct 0,
              bin_allocated = True, bin_evaluated = True\<rparr>"
  have ra: "un_run negate_op ([], temporary_unary_expr [1, 2])
      [Allocate_temporary, Evaluate, Move_to] = Inr ([[-1, -2]], ?ea)"
    by (simp add: temporary_unary_expr_def un_allocate_temporary_def un_evaluate_def
        un_move_def get_result_op_def negate_op_def)
  have rb: "un_run negate_op ([[0, 0]], temporary_unary_expr_forced [1, 2] 0)
      [Evaluate, Move_from] = Inr ([[-1, -2]], ?eb)"
    by (simp add: temporary_unary_expr_forced_def un_evaluate_def un_move_def
        get_result_op_def negate_op_def)
  have rc: "bin_run add_op ([], temporary_binary_expr [1, 2] [3, 4])
      [Copy, Allocate_temporary, Evaluate] = Inr ([[4, 6]], ?ec)"
    by (simp add: temporary_binary_expr_def bin_copy_def bin_allocate_temporary_def
        bin_evaluate_def get_result_op_def add_op_def)
  have rd: "bin_run add_op ([[0, 0], [9, 9]], temporary_binary_expr_forced [1, 2] [3, 4] 0)
      [Direct_evaluate 1] = Inr ([[4, 6], [4, 6]], ?ed)"
    by (simp add: temporary_binary_expr_forced_def bin_direct_evaluate_def bin_evaluate_def
        bin_result_def get_result_op_def add_op_def)
  from evaluated_implies_allocated [where opa = negate_op and sa = "[]" and aa = "[1, 2]"
      and csa = "[Allocate_temporary, Evaluate, Move_to]" and ta = "[[-1, -2]]" and ea = ?ea
      and opb = negate_op and sb = "[[0, 0]]" and ab = "[1, 2]" and cb = 0
      and csb = "[Evaluate, Move_from]" and tb = "[[-1, -2]]" and eb = ?eb
      and opc = add_op and sc = "[]" and ac = "[1, 2]" and bc = "[3, 4]"
      and csc = "[Copy, Allocate_temporary, Evaluate]" and tc = "[[4, 6]]" and ec = ?ec
      and opd = add_op and sd = "[[0, 0], [9, 9]]" and ad = "[1, 2]" and bd = "[3, 4]"
      and cd = 0 and csd = "[Direct_evaluate 1]" and td = "[[4, 6], [4, 6]]" and ed = ?ed]
    ra rb rc rd
  have "un_gpu_delegate_valid ?ea = un_evaluated ?ea"
    and "un_gpu_delegate_valid ?eb = un_evaluated ?eb"
    and "bin_gpu_delegate_valid ?ec = bin_evaluated ?ec"
    and "bin_gpu_delegate_valid ?ed = bin_evaluated ?ed"
    by blast+
  then have "un_gpu_delegate_valid ?ea" and "\<not> un_gpu_delegate_valid ?eb"
    and "bin_gpu_delegate_valid ?ec" and "bin_gpu_delegate_valid ?ed"
    by simp_all
  with ra rb rc rd show ?thesis by blast
qed

section \<open>Properties of the traits\<close>

text \<open>
  C8. For every binary temporary expression with one operand a generator and the other
  not, the resolved storage order is the storage order of the operand that is not a
  generator, whichever side the generator is on.
\<close>

theorem storage_order_of_concrete_operand:
  "(is_generator ta \<and> \<not> is_generator tb \<longrightarrow>
      storage_order (temporary_binary_expr_traits ta tb) = storage_order tb)
   \<and> (\<not> is_generator tc \<and> is_generator td \<longrightarrow>
      storage_order (temporary_binary_expr_traits tc td) = storage_order tc)"
  by (simp add: temporary_binary_expr_traits_def)

theorem storage_order_of_concrete_operand_witness:
  "is_generator (generator_traits ColumnMajor)
   \<and> \<not> is_generator (container_traits RowMajor)
   \<and> storage_order (temporary_binary_expr_traits (generator_traits ColumnMajor)
        (container_traits RowMajor)) = RowMajor
   \<and> storage_order (temporary_binary_expr_traits (container_traits RowMajor)
        (generator_traits ColumnMajor)) = RowMajor"
proof -
  have g: "is_generator (generator_traits ColumnMajor)"
    by (simp add: generator_traits_def)
  have c: "\<not> is_generator (container_traits RowMajor)"
    by (simp add: container_traits_def)
  have o: "storage_order (container_traits RowMajor) = RowMajor"
    by (simp add: container_traits_def)
  from storage_order_of_concrete_operand [where ta = "generator_traits ColumnMajor"
      and tb = "container_traits RowMajor" and tc = "container_traits RowMajor"
      and td = "generator_traits ColumnMajor"] g c o
  show ?thesis by simp
qed

text \<open>
  C9, as stated: a composite would be reported vectorizable only if every node taking
  part certifies vectorizability. A temporary unary expression over a right-repeat
  transformer is reported vectorizable for AVX, although the transformer, a node of the
  composite, is not; likewise a temporary binary expression with a left-repeat
  transformer as its left operand, for SSE3.
\<close>

theorem vectorizable_conservative_counterexample:
  "vectorizable (traits_of (Temporary_unary (Rep_r (Leaf (container_traits RowMajor))))) AVX
   \<and> Rep_r (Leaf (container_traits RowMajor))
       \<in> set (nodes (Temporary_unary (Rep_r (Leaf (container_traits RowMajor)))))
   \<and> \<not> vectorizable (traits_of (Rep_r (Leaf (container_traits RowMajor)))) AVX
   \<and> vectorizable (traits_of (Temporary_binary (Rep_l (Leaf (container_traits RowMajor)))
         (Leaf (container_traits RowMajor)))) SSE3
   \<and> Rep_l (Leaf (container_traits RowMajor))
       \<in> set (nodes (Temporary_binary (Rep_l (Leaf (container_traits RowMajor)))
            (Leaf (container_traits RowMajor))))
   \<and> \<not> vectorizable (traits_of (Rep_l (Leaf (container_traits RowMajor)))) SSE3"
  by (simp add: temporary_unary_expr_traits_def temporary_binary_expr_traits_def
      rep_r_transformer_traits_def rep_l_transformer_traits_def)

text \<open>
  C9, amended. For every vector mode the resolved vectorizability is decided by the root
  node alone: a temporary unary or binary expression is reported vectorizable whatever
  its operands certify, and a static or dynamic repeat transformer is reported not
  vectorizable whatever its sub-expression certifies.
\<close>

theorem vectorizable_by_root:
  "vectorizable (traits_of (Temporary_unary a)) V
   \<and> vectorizable (traits_of (Temporary_binary a b)) V
   \<and> \<not> vectorizable (traits_of (Rep_r s)) V
   \<and> \<not> vectorizable (traits_of (Rep_l s)) V
   \<and> \<not> vectorizable (traits_of (Dyn_rep_r s)) V
   \<and> \<not> vectorizable (traits_of (Dyn_rep_l s)) V"
  by (simp add: temporary_unary_expr_traits_def temporary_binary_expr_traits_def
      rep_r_transformer_traits_def rep_l_transformer_traits_def
      dyn_rep_r_transformer_traits_def dyn_rep_l_transformer_traits_def)

end
